theory Spec2Isabelle
  imports Main
begin

section \<open>Errors\<close>

text \<open>
  A Go \<open>error\<close> is modelled by its message: \<open>errors.New(m)\<close> is \<open>Error m\<close> and
  \<open>err.Error()\<close> is \<open>msg err\<close>.
\<close>

datatype error = Error (msg: string)

text \<open>\<open>errors.New(fmt.Sprintf("<prefix>: %v", err))\<close>, as registerNewUser builds it.\<close>

definition wrapError :: "string \<Rightarrow> error \<Rightarrow> error" where
  "wrapError prefix err = Error (prefix @ '': '' @ msg err)"

section \<open>Data model\<close>

text \<open>
  Modelled from the spec: the package \<open>simple-web-asr/model\<close> (the declarations of
  \<open>model.User\<close> and \<open>model.Recording\<close>) is not among the sources. The fields are the
  ones main.go reads and writes, with the types it uses them at; both structs carry the
  primary key \<open>ID\<close> of \<open>gorm.Model\<close>. The time stamps of \<open>gorm.Model\<close> are left out:
  nothing in main.go reads them and no row is ever deleted. A Go \<open>uint\<close> is a \<open>nat\<close>:
  main.go does no arithmetic on one.
\<close>

record Model =
  ID :: nat

record User = Model +
  Email :: string
  Password :: string
  Token :: string
  Status :: nat

record Recording = Model +
  UserID :: nat
  Title :: string
  Filename :: string
  Language :: string
  Status :: nat

text \<open>The zero values \<open>model.User{}\<close> and \<open>model.Recording{}\<close>.\<close>

definition zeroUser :: User where
  "zeroUser = \<lparr>ID = 0, Email = [], Password = [], Token = [], User.Status = 0\<rparr>"

definition zeroRecording :: Recording where
  "zeroRecording =
     \<lparr>ID = 0, UserID = 0, Title = [], Filename = [], Language = [], Status = 0\<rparr>"

section \<open>Library functions\<close>

subsection \<open>strings.ToLower\<close>

text \<open>
  Go lowers an all-ASCII string byte by byte (\<open>c += 'a' - 'A'\<close> for \<open>'A' \<le> c \<le> 'Z'\<close>,
  here the letter at the same place of the lower-case alphabet) and hands any other
  string to \<open>Map(unicode.ToLower, s)\<close>. The Unicode tables are a parameter,
  \<open>unicodeLower\<close>.
\<close>

definition isASCII :: "string \<Rightarrow> bool" where
  "isASCII s = list_all (\<lambda>c. (of_char c :: nat) < 128) s"

definition isUpper :: "char \<Rightarrow> bool" where
  "isUpper c = (65 \<le> (of_char c :: nat) \<and> (of_char c :: nat) \<le> 90)"

definition lowerByte :: "char \<Rightarrow> char" where
  "lowerByte c =
     (if isUpper c then ''abcdefghijklmnopqrstuvwxyz'' ! ((of_char c :: nat) - 65) else c)"

definition ToLower :: "(string \<Rightarrow> string) \<Rightarrow> string \<Rightarrow> string" where
  "ToLower unicodeLower s = (if isASCII s then map lowerByte s else unicodeLower s)"

subsection \<open>filepath.Base\<close>

text \<open>
  The Unix build: the separator is \<open>/\<close> and there is no volume name. Trailing slashes
  are stripped, what follows the last slash is kept, the empty path gives \<open>.\<close> and a
  path of slashes only gives \<open>/\<close>.
\<close>

definition isPathSeparator :: "char \<Rightarrow> bool" where
  "isPathSeparator c = (c = CHR ''/'')"

definition stripTrailing :: "string \<Rightarrow> string" where
  "stripTrailing path = rev (dropWhile isPathSeparator (rev path))"

definition lastElement :: "string \<Rightarrow> string" where
  "lastElement path = rev (takeWhile (\<lambda>c. \<not> isPathSeparator c) (rev path))"

definition Base :: "string \<Rightarrow> string" where
  "Base path =
     (if path = [] then ''.''
      else let p = lastElement (stripTrailing path)
           in if p = [] then ''/'' else p)"

subsection \<open>strconv.ParseUint(s, 10, 32) and strconv.Atoi\<close>

definition digitVal :: "char \<Rightarrow> nat option" where
  "digitVal c =
     (let n = (of_char c :: nat) in if 48 \<le> n \<and> n \<le> 57 then Some (n - 48) else None)"

text \<open>
  The loop of ParseUint for base 10: a byte that is no digit is a syntax error, a value
  above \<open>maxVal\<close> a range error; the handler only looks at \<open>err == nil\<close>, so both are
  \<open>None\<close>. \<open>cutoff\<close> is \<open>maxUint64 / 10 + 1\<close>.
\<close>

definition cutoff :: nat where
  "cutoff = (2 ^ 64 - 1) div 10 + 1"

fun parseLoop :: "nat \<Rightarrow> nat \<Rightarrow> string \<Rightarrow> nat option" where
  "parseLoop maxVal n [] = Some n"
| "parseLoop maxVal n (c # cs) =
     (case digitVal c of
        None \<Rightarrow> None
      | Some d \<Rightarrow>
          if n \<ge> cutoff then None
          else if n * 10 + d > maxVal then None
          else parseLoop maxVal (n * 10 + d) cs)"

definition ParseUint32 :: "string \<Rightarrow> nat option" where
  "ParseUint32 s = (if s = [] then None else parseLoop (2 ^ 32 - 1) 0 s)"

text \<open>\<open>strconv.Atoi\<close> on the two bytes of a bcrypt cost: an optional sign, then digits.\<close>

definition Atoi :: "string \<Rightarrow> int option" where
  "Atoi s =
     (case s of
        [] \<Rightarrow> None
      | c # cs \<Rightarrow>
          if c = CHR ''-'' \<or> c = CHR ''+''
          then (if cs = [] then None
                else map_option (\<lambda>n. if c = CHR ''-'' then - int n else int n)
                       (parseLoop (2 ^ 63) 0 cs))
          else map_option int (parseLoop (2 ^ 63 - 1) 0 s))"

subsection \<open>uuid.Parse\<close>

text \<open>
  Only \<open>err\<close> is used by the handler, so the model says whether the text parses. The
  accepted forms are the 36 byte form, the same behind \<open>urn:uuid:\<close> (any case) or behind
  one more leading byte (the braced form; the braces themselves are not looked at), and
  32 hexadecimal digits.
\<close>

definition isHex :: "char \<Rightarrow> bool" where
  "isHex c = (c \<in> set ''0123456789abcdefABCDEF'')"

definition hyphenated :: "string \<Rightarrow> bool" where
  "hyphenated s =
     (s ! 8 = CHR ''-'' \<and> s ! 13 = CHR ''-'' \<and> s ! 18 = CHR ''-'' \<and> s ! 23 = CHR ''-'' \<and>
      list_all (\<lambda>x. isHex (s ! x) \<and> isHex (s ! Suc x))
        [0, 2, 4, 6, 9, 11, 14, 16, 19, 21, 24, 26, 28, 30, 32, 34])"

definition uuid_Parse :: "string \<Rightarrow> error option" where
  "uuid_Parse s =
     (if length s = 36 then
        (if hyphenated s then None else Some (Error ''invalid UUID format''))
      else if length s = 36 + 9 then
        (if map lowerByte (take 9 s) \<noteq> ''urn:uuid:'' then Some (Error ''invalid urn prefix'')
         else if hyphenated (drop 9 s) then None else Some (Error ''invalid UUID format''))
      else if length s = 36 + 2 then
        (if hyphenated (drop 1 s) then None else Some (Error ''invalid UUID format''))
      else if length s = 32 then
        (if list_all isHex s then None else Some (Error ''invalid UUID format''))
      else Some (Error ''invalid UUID length''))"

subsection \<open>bcrypt\<close>

text \<open>
  The text of a bcrypt hash is \<open>$2a$\<close>, the cost in two digits, \<open>$\<close>, 22 bytes of salt
  and 31 bytes of digest. The key schedule that computes the digest from cost, salt and
  password (\<open>bcrypt(password, cost, salt)\<close>) is a parameter, \<open>core\<close>; what it and the
  random source deliver is cut or padded to the sizes that the library always produces.
\<close>

definition fitTo :: "nat \<Rightarrow> string \<Rightarrow> string" where
  "fitTo n s = take n (s @ replicate n CHR ''.'')"

definition twoDigits :: "nat \<Rightarrow> string" where
  "twoDigits n = [''0123456789'' ! ((n div 10) mod 10), ''0123456789'' ! (n mod 10)]"

definition MinCost :: nat where "MinCost = 4"
definition MaxCost :: nat where "MaxCost = 31"
definition DefaultCost :: nat where "DefaultCost = 10"

type_synonym bcrypt_core = "nat \<Rightarrow> string \<Rightarrow> string \<Rightarrow> error + string"

text \<open>
  \<open>GenerateFromPassword\<close>; \<open>rnd\<close> is what reading the salt from \<open>crypto/rand\<close> gives.
  (Recent versions of the library refuse a password of more than 72 bytes before
  anything else; that is an error of \<open>core\<close> here.)
\<close>

definition GenerateFromPassword ::
  "bcrypt_core \<Rightarrow> error + string \<Rightarrow> string \<Rightarrow> nat \<Rightarrow> error + string" where
  "GenerateFromPassword core rnd password cost0 =
     (let cost = (if cost0 < MinCost then DefaultCost else cost0)
      in if cost > MaxCost then Inl (Error ''crypto/bcrypt: cost outside allowed range'')
         else case rnd of
                Inl err \<Rightarrow> Inl err
              | Inr s \<Rightarrow>
                  let salt = fitTo 22 s
                  in (case core cost salt password of
                        Inl err' \<Rightarrow> Inl err'
                      | Inr d \<Rightarrow> Inr (''$2a$'' @ twoDigits cost @ ''$'' @ salt @ fitTo 31 d)))"

text \<open>
  \<open>newFromHash\<close>: the cost, the salt and the digest of a stored hash, or the error of a
  text that is too short, has no \<open>$\<close> in front, a version above 2 or a cost that is
  no number between 4 and 31.
\<close>

definition newFromHash :: "string \<Rightarrow> error + (nat \<times> string \<times> string)" where
  "newFromHash h =
     (if length h < 59 then Inl (Error ''crypto/bcrypt: hashedSecret too short to be a bcrypted password'')
      else if h ! 0 \<noteq> CHR ''$'' then Inl (Error ''crypto/bcrypt: bcrypt hashes must start with $'')
      else if (of_char (h ! 1) :: nat) > of_char CHR ''2'' then Inl (Error ''crypto/bcrypt: bcrypt algorithm version too new'')
      else let rest = drop (if h ! 2 \<noteq> CHR ''$'' then 4 else 3) h
           in case Atoi (take 2 rest) of
                None \<Rightarrow> Inl (Error ''crypto/bcrypt: cost is not a number'')
              | Some c \<Rightarrow>
                  if c < int MinCost \<or> c > int MaxCost
                  then Inl (Error ''crypto/bcrypt: cost outside allowed range'')
                  else Inr (nat c, take 22 (drop 3 rest), drop 22 (drop 3 rest)))"

text \<open>\<open>CompareHashAndPassword\<close>: \<open>None\<close> is Go's \<open>nil\<close>, the password matches.\<close>

definition CompareHashAndPassword :: "bcrypt_core \<Rightarrow> string \<Rightarrow> string \<Rightarrow> error option" where
  "CompareHashAndPassword core hashedPassword password =
     (case newFromHash hashedPassword of
        Inl err \<Rightarrow> Some err
      | Inr (cost, salt, digest) \<Rightarrow>
          (case core cost salt password of
             Inl err \<Rightarrow> Some err
           | Inr d \<Rightarrow>
               if fitTo 31 d = digest then None
               else Some (Error ''crypto/bcrypt: hashedPassword is not the hash of the given password'')))"

text \<open>The cost that a stored hash was computed with.\<close>

definition Cost :: "string \<Rightarrow> error + nat" where
  "Cost h = (case newFromHash h of Inl err \<Rightarrow> Inl err | Inr (cost, _, _) \<Rightarrow> Inr cost)"

section \<open>The database\<close>

text \<open>
  A table is the list of its rows in the order of the primary key. \<open>db.First\<close> orders by
  the primary key and takes the first row that meets the conditions; it leaves its
  destination as it was (the zero value, at every call of main.go) when there is none.
  The read itself is taken to succeed: main.go looks at the error of no read.
\<close>

definition First :: "'a \<Rightarrow> ('a \<Rightarrow> bool) \<Rightarrow> 'a list \<Rightarrow> 'a" where
  "First zero cond rows = (case find cond rows of None \<Rightarrow> zero | Some r \<Rightarrow> r)"

text \<open>\<open>db.First(&x, id)\<close>: the condition is \<open>id = ?\<close> on the primary key, also for 0.\<close>

definition primaryKey :: "nat \<Rightarrow> 'a Model_scheme \<Rightarrow> bool" where
  "primaryKey n r = (ID r = n)"

text \<open>
  \<open>db.Where(&model.User{...})\<close> and \<open>db.Where(&model.Recording{...})\<close>: gorm builds the
  condition from the fields of the struct that are not the zero value of their type, one
  equality for each, and builds no condition at all from a struct that is all zero.
\<close>

definition whereUser :: "User \<Rightarrow> User \<Rightarrow> bool" where
  "whereUser q u =
     ((ID q = 0 \<or> ID u = ID q) \<and>
      (Email q = [] \<or> Email u = Email q) \<and>
      (Password q = [] \<or> Password u = Password q) \<and>
      (Token q = [] \<or> Token u = Token q) \<and>
      (User.Status q = 0 \<or> User.Status u = User.Status q))"

definition whereRecording :: "Recording \<Rightarrow> Recording \<Rightarrow> bool" where
  "whereRecording q r =
     ((ID q = 0 \<or> ID r = ID q) \<and>
      (UserID q = 0 \<or> UserID r = UserID q) \<and>
      (Title q = [] \<or> Title r = Title q) \<and>
      (Filename q = [] \<or> Filename r = Filename q) \<and>
      (Language q = [] \<or> Language r = Language q) \<and>
      (Status q = 0 \<or> Status r = Status q))"

text \<open>
  \<open>db.Create\<close> of a row whose \<open>ID\<close> is zero (main.go sets none before it creates): the
  store gives the row the next key and the struct gets it back.
\<close>

primrec maxID :: "'a Model_scheme list \<Rightarrow> nat" where
  "maxID [] = 0"
| "maxID (r # rs) = max (ID r) (maxID rs)"

definition Create :: "'a Model_scheme \<Rightarrow> 'a Model_scheme list \<Rightarrow> 'a Model_scheme \<times> 'a Model_scheme list" where
  "Create row rows = (let r = row\<lparr>ID := Suc (maxID rows)\<rparr> in (r, rows @ [r]))"

text \<open>
  \<open>db.Save\<close>: a struct whose primary key is zero is created; any other updates every
  column of the row with its key, and is inserted under its key when no row has it.
\<close>

definition Save :: "'a Model_scheme \<Rightarrow> 'a Model_scheme list \<Rightarrow> 'a Model_scheme \<times> 'a Model_scheme list" where
  "Save row rows =
     (if ID row = 0 then Create row rows
      else if list_ex (primaryKey (ID row)) rows
      then (row, map (\<lambda>r. if ID r = ID row then row else r) rows)
      else (row, insort_key ID row rows))"

section \<open>The world outside a request\<close>

text \<open>
  The two tables behind the global \<open>db\<close>, the files that uploads are saved to (newest
  first) and the mail that was handed to \<open>helper.SendEmail\<close> (recipient, subject, body).
\<close>

record World =
  users :: "User list"
  recordings :: "Recording list"
  files :: "(string \<times> string) list"
  outbox :: "(string \<times> string \<times> string) list"

text \<open>
  What a request meets outside main.go: the configuration, the parameters of the library
  models, and the outcome of each call that can fail for a reason that main.go does not
  decide (each handler makes each of these calls at most once). \<open>helper.GetConfig\<close>,
  \<open>helper.RecordingFilename\<close> and \<open>helper.SendEmail\<close> are of the package
  \<open>simple-web-asr/helper\<close>, which is not among the sources.
\<close>

record Env =
  URL_BASE :: string
  RecordingFilename :: "nat \<Rightarrow> string"
  unicodeLower :: "string \<Rightarrow> string"
  core :: bcrypt_core
  rnd :: "error + string"
  NewRandom :: "error + string"
  createErr :: "error option"
  saveErr :: "error option"
  saveFileErr :: "error option"
  sendErr :: "error option"

section \<open>Operations on the store\<close>

definition getAllRecordingsByUserID :: "World \<Rightarrow> nat \<Rightarrow> Recording list" where
  "getAllRecordingsByUserID w userID =
     filter (\<lambda>r. whereRecording (zeroRecording\<lparr>UserID := userID\<rparr>) r \<and> \<not> (Status r = 0))
       (recordings w)"

definition getRecordingByID :: "World \<Rightarrow> nat \<Rightarrow> error + Recording" where
  "getRecordingByID w n =
     (let recording = First zeroRecording (primaryKey n) (recordings w)
      in if Title recording = [] then Inl (Error ''Recording not found'') else Inr recording)"

text \<open>Go returns \<open>&r\<close> together with the error: the struct as it is, created or not.\<close>

definition createRecording ::
  "Env \<Rightarrow> World \<Rightarrow> nat \<Rightarrow> string \<Rightarrow> string \<Rightarrow> string \<Rightarrow> World \<times> Recording \<times> error option" where
  "createRecording env w userID title filename language =
     (let r = \<lparr>ID = 0, UserID = userID, Title = title, Filename = filename,
                Language = language, Status = 0\<rparr>
      in case createErr env of
           Some err \<Rightarrow> (w, r, Some err)
         | None \<Rightarrow>
             (let (r', rows) = Create r (recordings w)
              in (w\<lparr>recordings := rows\<rparr>, r', None)))"

definition updateRecordingStatus :: "Env \<Rightarrow> World \<Rightarrow> Recording \<Rightarrow> nat \<Rightarrow> World \<times> error option" where
  "updateRecordingStatus env w r status =
     (let recording = First zeroRecording (primaryKey (ID r)) (recordings w);
          recording' = recording\<lparr>Status := status\<rparr>
      in case saveErr env of
           Some err \<Rightarrow> (w, Some err)
         | None \<Rightarrow> (w\<lparr>recordings := snd (Save recording' (recordings w))\<rparr>, None))"

definition findUser :: "Env \<Rightarrow> World \<Rightarrow> string \<Rightarrow> string \<Rightarrow> User option" where
  "findUser env w email password =
     (let user = First zeroUser (whereUser (zeroUser\<lparr>Email := email\<rparr>)) (users w)
      in case CompareHashAndPassword (core env) (Password user) password of
           Some err \<Rightarrow> None
         | None \<Rightarrow> Some user)"

definition hashPassword :: "Env \<Rightarrow> string \<Rightarrow> error + string" where
  "hashPassword env password = GenerateFromPassword (core env) (rnd env) password 14"

text \<open>
  Modelled from the spec: the declaration of \<open>model.User\<close> is missing, and with it the
  uniqueness constraint on the email column that the spec speaks of; \<open>db.Create\<close> of a
  user fails on an email that a row already has.
\<close>

definition createUser :: "Env \<Rightarrow> World \<Rightarrow> User \<Rightarrow> World \<times> User \<times> error option" where
  "createUser env w user =
     (if list_ex (\<lambda>u. Email u = Email user) (users w)
      then (w, user, Some (Error ''UNIQUE constraint failed: users.email''))
      else case createErr env of
             Some err \<Rightarrow> (w, user, Some err)
           | None \<Rightarrow>
               (let (user', rows) = Create user (users w)
                in (w\<lparr>users := rows\<rparr>, user', None)))"

definition sendConfirmation :: "Env \<Rightarrow> World \<Rightarrow> nat \<Rightarrow> World \<times> error option" where
  "sendConfirmation env w userID =
     (case NewRandom env of
        Inl err \<Rightarrow> (w, Some err)
      | Inr token \<Rightarrow>
          (let user = First zeroUser (primaryKey userID) (users w);
               user' = user\<lparr>Token := token\<rparr>
           in case saveErr env of
                Some err \<Rightarrow> (w, Some err)
              | None \<Rightarrow>
                  (let w' = w\<lparr>users := snd (Save user' (users w))\<rparr>;
                       confirmationLink = URL_BASE env @ ''/u/confirm/'' @ token;
                       messageBody = ''To confirm this email address, go to:<br/>'' @ [CHR 0x0A]
                         @ ''<a href='' @ [CHR 0x22] @ confirmationLink @ [CHR 0x22] @ ''>''
                         @ confirmationLink @ ''</a>''
                   in case sendErr env of
                        Some err \<Rightarrow> (w', Some err)
                      | None \<Rightarrow>
                          (w'\<lparr>outbox := outbox w' @ [(Email user', ''Email Confirmation'', messageBody)]\<rparr>,
                           None))))"

definition registerNewUser :: "Env \<Rightarrow> World \<Rightarrow> string \<Rightarrow> string \<Rightarrow> World \<times> (error + User)" where
  "registerNewUser env w email password =
     (let user = \<lparr>ID = 0, Email = email, Password = password, Token = [], User.Status = 0\<rparr>
      in case hashPassword env (Password user) of
           Inl err \<Rightarrow> (w, Inl (wrapError ''Could not hash password'' err))
         | Inr hash \<Rightarrow>
             (case createUser env w (user\<lparr>Password := hash\<rparr>) of
                (w', user', Some err) \<Rightarrow> (w', Inl (wrapError ''Could not create user'' err))
              | (w', user', None) \<Rightarrow>
                  (case sendConfirmation env w' (ID user') of
                     (w'', Some err) \<Rightarrow> (w'', Inl (wrapError ''Could not send confirmation link'' err))
                   | (w'', None) \<Rightarrow> (w'', Inr user'))))"

section \<open>The request context\<close>

text \<open>
  What main.go uses of \<open>gin.Context\<close>. A value of \<open>gin.H\<close> is an association list (the
  binding in front wins); \<open>any\<close> holds the values that main.go puts into one.
\<close>

datatype any = String string | Bool bool | RecordingV Recording | RecordingsV "Recording list"

type_synonym H = "(string \<times> any) list"

datatype body = JSON "any option" | XML "any option" | HTML string H

datatype FileHeader = FileHeader (fh_Filename: string) (fh_Content: string)

text \<open>
  \<open>session\<close> is the value of \<open>user_id\<close> in the cookie session and \<open>is_logged_in\<close> the key
  of that name in the context, \<open>None\<close> where Go has \<open>nil\<close>. \<open>wstatus\<close>, \<open>written\<close>
  and \<open>wbody\<close> are the response writer: its status code, whether the header has been
  sent, and what has been rendered into the body. \<open>panicked\<close> records a panic that the
  Recovery middleware of \<open>gin.Default()\<close> caught.
\<close>

record Context =
  Param :: "string \<Rightarrow> string"
  PostForm :: "string \<Rightarrow> string"
  FormFile :: "string \<Rightarrow> error + FileHeader"
  Accept :: string
  session :: "nat option"
  is_logged_in :: "bool option"
  wstatus :: nat
  written :: bool
  wbody :: "body list"
  aborted :: bool
  Errors :: "error list"
  panicked :: bool

text \<open>
  \<open>c.Status(code)\<close> changes the status code only while the header has not been sent:
  afterwards gin prints a warning and keeps the code that went out.
\<close>

definition Status_code :: "nat \<Rightarrow> Context \<Rightarrow> Context" where
  "Status_code code c =
     (if code > 0 \<and> wstatus c \<noteq> code
      then (if written c then c else c\<lparr>wstatus := code\<rparr>)
      else c)"

definition AbortWithStatus :: "nat \<Rightarrow> Context \<Rightarrow> Context" where
  "AbortWithStatus code c = (Status_code code c)\<lparr>written := True, aborted := True\<rparr>"

definition AbortWithError :: "nat \<Rightarrow> error \<Rightarrow> Context \<Rightarrow> Context" where
  "AbortWithError code err c = (let c' = AbortWithStatus code c in c'\<lparr>Errors := Errors c' @ [err]\<rparr>)"

text \<open>\<open>c.HTML\<close>, \<open>c.JSON\<close> and \<open>c.XML\<close>: set the status, then write the body.\<close>

definition Render :: "nat \<Rightarrow> body \<Rightarrow> Context \<Rightarrow> Context" where
  "Render code b c = (let c' = Status_code code c in c'\<lparr>written := True, wbody := wbody c' @ [b]\<rparr>)"

text \<open>A panic ends the handler; Recovery answers it with \<open>AbortWithStatus(500)\<close>.\<close>

definition recovery :: "Context \<Rightarrow> Context" where
  "recovery c = AbortWithStatus 500 (c\<lparr>panicked := True\<rparr>)"

text \<open>
  \<open>render\<close> of main.go. The type assertion \<open>loggedInInterface.(bool)\<close> panics where the
  key was never set.
\<close>

definition render :: "Env \<Rightarrow> Context \<Rightarrow> H \<Rightarrow> string \<Rightarrow> Context" where
  "render env c data templateName =
     (case is_logged_in c of
        None \<Rightarrow> recovery c
      | Some loggedIn \<Rightarrow>
          (let data' = (''url_base'', String (URL_BASE env)) # (''is_logged_in'', Bool loggedIn) # data
           in if Accept c = ''application/json'' then Render 200 (JSON (map_of data' ''payload'')) c
              else if Accept c = ''application/xml'' then Render 200 (XML (map_of data' ''payload'')) c
              else Render 200 (HTML templateName data') c))"

section \<open>Middleware\<close>

definition setUserStatus :: "Context \<Rightarrow> Context" where
  "setUserStatus c =
     (case session c of
        Some userID \<Rightarrow> c\<lparr>is_logged_in := Some True\<rparr>
      | None \<Rightarrow> c\<lparr>is_logged_in := Some False\<rparr>)"

definition ensureLoggedIn :: "Context \<Rightarrow> Context" where
  "ensureLoggedIn c =
     (case is_logged_in c of
        None \<Rightarrow> recovery c
      | Some loggedIn \<Rightarrow> if \<not> loggedIn then AbortWithStatus 401 c else c)"

definition ensureNotLoggedIn :: "Context \<Rightarrow> Context" where
  "ensureNotLoggedIn c =
     (case is_logged_in c of
        None \<Rightarrow> recovery c
      | Some loggedIn \<Rightarrow> if loggedIn then AbortWithStatus 401 c else c)"

section \<open>Handlers\<close>

definition getRecording :: "Env \<Rightarrow> World \<times> Context \<Rightarrow> World \<times> Context" where
  "getRecording env = (\<lambda>(w, c).
     case ParseUint32 (Param c ''recording_id'') of
       None \<Rightarrow> (w, AbortWithStatus 404 c)
     | Some recordingID \<Rightarrow>
         (case getRecordingByID w recordingID of
            Inl err \<Rightarrow> (w, AbortWithError 404 err c)
          | Inr recording \<Rightarrow>
              (case session c of
                 None \<Rightarrow> (w, recovery c)
               | Some userID \<Rightarrow>
                   if userID = UserID recording
                   then (w, render env c [(''payload'', RecordingV recording)] ''recording.html'')
                   else (w, AbortWithStatus 401 c))))"

text \<open>\<open>c.SaveUploadedFile(file, dst)\<close>.\<close>

definition SaveUploadedFile :: "Env \<Rightarrow> World \<Rightarrow> FileHeader \<Rightarrow> string \<Rightarrow> World \<times> error option" where
  "SaveUploadedFile env w file dst =
     (case saveFileErr env of
        Some err \<Rightarrow> (w, Some err)
      | None \<Rightarrow> (w\<lparr>files := (dst, fh_Content file) # files w\<rparr>, None))"

text \<open>
  \<open>uploadRecording\<close>. None of its first three \<open>AbortWithError\<close> calls is followed by a
  \<open>return\<close>, so the handler goes on after each: after a failed \<open>FormFile\<close> into
  \<open>file.Filename\<close> on a nil pointer (a panic), after a failed \<open>createRecording\<close>
  and after a failed \<open>SaveUploadedFile\<close> into the statements that follow.
\<close>

definition uploadRecording :: "Env \<Rightarrow> World \<times> Context \<Rightarrow> World \<times> Context" where
  "uploadRecording env = (\<lambda>(w, c).
     let title = PostForm c ''title'';
         language = PostForm c ''language''
     in case FormFile c ''content'' of
          Inl err \<Rightarrow> (w, recovery (AbortWithError 400 err c))
        | Inr file \<Rightarrow>
            (let filename = Base (fh_Filename file);
                 title = (if title = [] then filename else title)
             in case session c of
                  None \<Rightarrow> (w, recovery c)
                | Some userID \<Rightarrow>
                    (let (w1, r, err) = createRecording env w userID title filename language;
                         c1 = (case err of Some e \<Rightarrow> AbortWithError 400 e c | None \<Rightarrow> c);
                         localFilename = RecordingFilename env (ID r);
                         (w2, err2) = SaveUploadedFile env w1 file localFilename;
                         c2 = (case err2 of Some e \<Rightarrow> AbortWithError 400 e c1 | None \<Rightarrow> c1);
                         (w3, err3) = updateRecordingStatus env w2 r 1
                     in case err3 of
                          None \<Rightarrow> (w3, render env c2 [(''payload'', RecordingV r)] ''submission-successful.html'')
                        | Some e \<Rightarrow> (w3, AbortWithError 400 e c2))))"

definition performLogin :: "Env \<Rightarrow> World \<times> Context \<Rightarrow> World \<times> Context" where
  "performLogin env = (\<lambda>(w, c).
     let email = ToLower (unicodeLower env) (PostForm c ''email'');
         password = PostForm c ''password''
     in case findUser env w email password of
          Some user \<Rightarrow>
            if User.Status user > 0
            then (w, render env (c\<lparr>session := Some (ID user), is_logged_in := Some True\<rparr>)
                       [(''title'', String ''Successful Login'')] ''login-successful.html'')
            else (w, Render 400 (HTML ''login.html''
                       [(''ErrorTitle'', String ''Login Failed''),
                        (''ErrorMessage'', String ''Please check your mailbox and click the confirmation link'')]) c)
        | None \<Rightarrow>
            (w, Render 400 (HTML ''login.html''
                  [(''ErrorTitle'', String ''Login Failed''),
                   (''ErrorMessage'', String ''Invalid credentials provided'')]) c))"

definition register :: "Env \<Rightarrow> World \<times> Context \<Rightarrow> World \<times> Context" where
  "register env = (\<lambda>(w, c).
     let email = ToLower (unicodeLower env) (PostForm c ''email'');
         password = PostForm c ''password''
     in case registerNewUser env w email password of
          (w', Inr user) \<Rightarrow> (w', render env c [] ''register-successful.html'')
        | (w', Inl err) \<Rightarrow>
            (w', Render 400 (HTML ''register.html''
                   [(''ErrorTitle'', String ''Registration Failed''),
                    (''ErrorMessage'', String (msg err))]) c))"

definition performConfirmation :: "Env \<Rightarrow> World \<times> Context \<Rightarrow> World \<times> Context" where
  "performConfirmation env = (\<lambda>(w, c).
     let token = Param c ''token''
     in case uuid_Parse token of
          Some err \<Rightarrow> (w, AbortWithError 400 err c)
        | None \<Rightarrow>
            (let user = First zeroUser (whereUser (zeroUser\<lparr>Token := token\<rparr>)) (users w)
             in if Email user = [] then (w, AbortWithError 400 (Error ''Invalid confirmation link'') c)
                else (let user' = user\<lparr>Token := [], User.Status := 1\<rparr>
                      in case saveErr env of
                           Some err \<Rightarrow> (w, AbortWithError 400 err c)
                         | None \<Rightarrow>
                             (w\<lparr>users := snd (Save user' (users w))\<rparr>,
                              render env c [] ''confirmation.html''))))"

section \<open>Routes\<close>

text \<open>
  gin runs the handlers of a route in turn; \<open>Abort\<close> lets the running handler finish and
  keeps the later ones from running.
\<close>

fun runHandlers :: "(World \<times> Context \<Rightarrow> World \<times> Context) list \<Rightarrow> World \<times> Context \<Rightarrow> World \<times> Context" where
  "runHandlers [] s = s"
| "runHandlers (h # hs) s = (let s' = h s in if aborted (snd s') then s' else runHandlers hs s')"

text \<open>A request as it arrives: path parameters, form, \<open>Accept\<close> header and the session of its cookie.\<close>

record Request =
  params :: "string \<Rightarrow> string"
  form :: "string \<Rightarrow> string"
  formFile :: "string \<Rightarrow> error + FileHeader"
  acceptHeader :: string
  cookie :: "nat option"

definition newContext :: "Request \<Rightarrow> Context" where
  "newContext req =
     \<lparr>Param = params req, PostForm = form req, FormFile = formFile req,
      Accept = acceptHeader req, session = cookie req, is_logged_in = None,
      wstatus = 200, written = False, wbody = [], aborted = False, Errors = [],
      panicked = False\<rparr>"

definition middleware :: "(Context \<Rightarrow> Context) \<Rightarrow> World \<times> Context \<Rightarrow> World \<times> Context" where
  "middleware m = (\<lambda>(w, c). (w, m c))"

text \<open>The routes of \<open>initializeRoutes\<close> that the properties below are about.\<close>

definition GET_recording_view :: "Env \<Rightarrow> World \<Rightarrow> Request \<Rightarrow> World \<times> Context" where
  "GET_recording_view env w req =
     runHandlers [middleware setUserStatus, middleware ensureLoggedIn, getRecording env] (w, newContext req)"

definition POST_recording_upload :: "Env \<Rightarrow> World \<Rightarrow> Request \<Rightarrow> World \<times> Context" where
  "POST_recording_upload env w req =
     runHandlers [middleware setUserStatus, middleware ensureLoggedIn, uploadRecording env] (w, newContext req)"

definition POST_u_login :: "Env \<Rightarrow> World \<Rightarrow> Request \<Rightarrow> World \<times> Context" where
  "POST_u_login env w req =
     runHandlers [middleware setUserStatus, middleware ensureNotLoggedIn, performLogin env] (w, newContext req)"

definition POST_u_register :: "Env \<Rightarrow> World \<Rightarrow> Request \<Rightarrow> World \<times> Context" where
  "POST_u_register env w req =
     runHandlers [middleware setUserStatus, middleware ensureNotLoggedIn, register env] (w, newContext req)"

definition GET_u_confirm :: "Env \<Rightarrow> World \<Rightarrow> Request \<Rightarrow> World \<times> Context" where
  "GET_u_confirm env w req =
     runHandlers [middleware setUserStatus, middleware ensureNotLoggedIn, performConfirmation env] (w, newContext req)"

section \<open>The two refusals of the login page\<close>

text \<open>The bodies that \<open>performLogin\<close> renders with status 400, named for the statements below.\<close>

definition invalidCredentials :: body where
  "invalidCredentials = HTML ''login.html''
     [(''ErrorTitle'', String ''Login Failed''),
      (''ErrorMessage'', String ''Invalid credentials provided'')]"

definition needsConfirmation :: body where
  "needsConfirmation = HTML ''login.html''
     [(''ErrorTitle'', String ''Login Failed''),
      (''ErrorMessage'', String ''Please check your mailbox and click the confirmation link'')]"

section \<open>Example data\<close>

text \<open>
  Concrete stores and requests on which the properties below are evaluated. The
  \<open>core\<close> of \<open>exampleEnv\<close> is a stand-in for the key schedule of bcrypt.
\<close>

definition exampleEnv :: Env where
  "exampleEnv =
     \<lparr>URL_BASE = ''http://localhost:8080'',
      RecordingFilename = (\<lambda>n. ''recordings/'' @ replicate n CHR ''i''),
      unicodeLower = (\<lambda>s. s),
      core = (\<lambda>cost salt password. Inr (rev password)),
      rnd = Inr ''abcdefghijklmnopqrstuv'',
      NewRandom = Inr ''123e4567-e89b-12d3-a456-426614174000'',
      createErr = None, saveErr = None, saveFileErr = None, sendErr = None\<rparr>"

definition recordingA :: Recording where
  "recordingA = \<lparr>ID = 1, UserID = 1, Title = ''speech.wav'', Filename = ''speech.wav'',
                  Language = ''en'', Status = 1\<rparr>"

definition recordingB :: Recording where
  "recordingB = \<lparr>ID = 2, UserID = 2, Title = ''memo'', Filename = ''memo.wav'',
                  Language = ''de'', Status = 1\<rparr>"

definition recordingPending :: Recording where
  "recordingPending = \<lparr>ID = 3, UserID = 1, Title = ''draft'', Filename = ''draft.wav'',
                        Language = ''en'', Status = 0\<rparr>"

definition exampleWorld :: World where
  "exampleWorld =
     \<lparr>users = [], recordings = [recordingA, recordingB, recordingPending], files = [], outbox = []\<rparr>"

definition viewRequest :: "string \<Rightarrow> nat \<Rightarrow> Request" where
  "viewRequest n uid =
     \<lparr>params = (\<lambda>k. if k = ''recording_id'' then n else []), form = (\<lambda>k. []),
      formFile = (\<lambda>k. Inl (Error ''http: no such file'')),
      acceptHeader = ''application/json'', cookie = Some uid\<rparr>"

definition recordingUntitled :: Recording where
  "recordingUntitled = \<lparr>ID = 4, UserID = 1, Title = [], Filename = ''a.wav'',
                          Language = ''en'', Status = 1\<rparr>"

definition untitledWorld :: World where
  "untitledWorld = \<lparr>users = [], recordings = [recordingA, recordingUntitled], files = [], outbox = []\<rparr>"

definition exampleToken :: string where
  "exampleToken = ''123e4567-e89b-12d3-a456-426614174000''"

definition exampleHash :: string where
  "exampleHash = ''$2a$14$abcdefghijklmnopqrstuv654321wp.......................''"

definition userPending :: User where
  "userPending = \<lparr>ID = 1, Email = ''a@x.com'', Password = exampleHash, Token = exampleToken,
                   User.Status = 0\<rparr>"

definition userNoEmail :: User where
  "userNoEmail = \<lparr>ID = 1, Email = [], Password = exampleHash, Token = exampleToken,
                   User.Status = 0\<rparr>"

definition pendingWorld :: World where
  "pendingWorld = \<lparr>users = [userPending], recordings = [], files = [], outbox = []\<rparr>"

definition noEmailWorld :: World where
  "noEmailWorld = \<lparr>users = [userNoEmail], recordings = [], files = [], outbox = []\<rparr>"

definition confirmRequest :: "string \<Rightarrow> Request" where
  "confirmRequest t =
     \<lparr>params = (\<lambda>k. if k = ''token'' then t else []), form = (\<lambda>k. []),
      formFile = (\<lambda>k. Inl (Error ''http: no such file'')),
      acceptHeader = [], cookie = None\<rparr>"

definition uploadRequest :: "string \<Rightarrow> string \<Rightarrow> nat \<Rightarrow> Request" where
  "uploadRequest title filename uid =
     \<lparr>params = (\<lambda>k. []),
      form = (\<lambda>k. if k = ''title'' then title else if k = ''language'' then ''en'' else []),
      formFile = (\<lambda>k. if k = ''content'' then Inr (FileHeader filename ''RIFF'')
                        else Inl (Error ''http: no such file'')),
      acceptHeader = ''application/json'', cookie = Some uid\<rparr>"

definition diskFullEnv :: Env where
  "diskFullEnv = exampleEnv\<lparr>saveFileErr := Some (Error ''no space left on device'')\<rparr>"

definition lockedEnv :: Env where
  "lockedEnv = exampleEnv\<lparr>createErr := Some (Error ''database is locked'')\<rparr>"

definition recordingBlank :: Recording where
  "recordingBlank = \<lparr>ID = 4, UserID = 0, Title = [], Filename = [], Language = [], Status = 1\<rparr>"

definition recordingEvil :: Recording where
  "recordingEvil = \<lparr>ID = 4, UserID = 1, Title = ''evil.wav'', Filename = ''evil.wav'',
                      Language = ''en'', Status = 0\<rparr>"

definition loginRequest :: "string \<Rightarrow> string \<Rightarrow> Request" where
  "loginRequest email password =
     \<lparr>params = (\<lambda>k. []),
      form = (\<lambda>k. if k = ''email'' then email else if k = ''password'' then password else []),
      formFile = (\<lambda>k. Inl (Error ''http: no such file'')),
      acceptHeader = [], cookie = None\<rparr>"

definition userConfirmed :: User where
  "userConfirmed = \<lparr>ID = 1, Email = ''a@x.com'', Password = exampleHash, Token = [],
                     User.Status = 1\<rparr>"

definition confirmedWorld :: World where
  "confirmedWorld = \<lparr>users = [userConfirmed], recordings = [], files = [], outbox = []\<rparr>"

definition mailDownEnv :: Env where
  "mailDownEnv = exampleEnv\<lparr>sendErr := Some (Error ''dial tcp: connection refused'')\<rparr>"

definition emptyWorld :: World where
  "emptyWorld = \<lparr>users = [], recordings = [], files = [], outbox = []\<rparr>"

definition registerRequest :: "string \<Rightarrow> string \<Rightarrow> Request" where
  "registerRequest email password =
     \<lparr>params = (\<lambda>k. []),
      form = (\<lambda>k. if k = ''email'' then email else if k = ''password'' then password else []),
      formFile = (\<lambda>k. Inl (Error ''http: no such file'')),
      acceptHeader = [], cookie = None\<rparr>"

definition secretHash :: string where
  "secretHash = ''$2a$14$abcdefghijklmnopqrstuvterces.........................''"

definition userBlankEmail :: User where
  "userBlankEmail = \<lparr>ID = 2, Email = [], Password = secretHash, Token = exampleToken,
                      User.Status = 0\<rparr>"

definition twoUsersWorld :: World where
  "twoUsersWorld = \<lparr>users = [userPending, userBlankEmail], recordings = [], files = [],
                     outbox = []\<rparr>"

section \<open>Facts about the tables\<close>

text \<open>The key that \<open>Create\<close> gives a row is never 0.\<close>

lemma Create_key: "ID (fst (Create row rows)) = Suc (maxID rows)"
  by (simp add: Create_def Let_def)


lemma maxID_ge: "r \<in> set rows \<Longrightarrow> ID r \<le> maxID rows"
  by (induction rows) auto

lemma find_app:
  "find P (xs @ ys) = (case find P xs of None \<Rightarrow> find P ys | Some x \<Rightarrow> Some x)"
  by (induction xs) auto

lemma find_primaryKey_old: "find (primaryKey (Suc (maxID rows))) rows = None"
  by (auto simp: find_None_iff primaryKey_def dest: maxID_ge)

lemma find_primaryKey_new:
  "ID r = Suc (maxID rows) \<Longrightarrow> find (primaryKey (Suc (maxID rows))) (rows @ [r]) = Some r"
  by (simp add: find_app find_primaryKey_old) (simp add: primaryKey_def)

lemma find_primaryKey_distinct:
  "r \<in> set rows \<Longrightarrow> distinct (map ID rows) \<Longrightarrow> find (primaryKey (ID r)) rows = Some r"
  by (induction rows) (auto simp: primaryKey_def)

lemma whereRecording_owner:
  "whereRecording (zeroRecording\<lparr>UserID := u\<rparr>) r = (u = 0 \<or> UserID r = u)"
  by (simp add: whereRecording_def zeroRecording_def)

lemma whereUser_Email:
  "whereUser (zeroUser\<lparr>Email := e\<rparr>) u = (e = [] \<or> Email u = e)"
  by (simp add: whereUser_def zeroUser_def)

lemma whereUser_Token:
  "whereUser (zeroUser\<lparr>Token := t\<rparr>) u = (t = [] \<or> Token u = t)"
  by (simp add: whereUser_def zeroUser_def)

lemma find_unique:
  "u \<in> set xs \<Longrightarrow> P u \<Longrightarrow> (\<And>v. v \<in> set xs \<Longrightarrow> P v \<Longrightarrow> v = u) \<Longrightarrow> find P xs = Some u"
proof (induction xs)
  case Nil
  then show ?case by simp
next
  case (Cons a xs)
  show ?case
  proof (cases "P a")
    case True
    then have "a = u" using Cons.prems(3) by simp
    with True show ?thesis by simp
  next
    case False
    then have "u \<in> set xs" using Cons.prems(1,2) by auto
    then have "find P xs = Some u" using Cons.prems(2,3) by (intro Cons.IH) auto
    with False show ?thesis by simp
  qed
qed

lemma Save_existing:
  "u \<in> set rows \<Longrightarrow> ID u' = ID u \<Longrightarrow> ID u \<noteq> 0 \<Longrightarrow>
   snd (Save u' rows) = map (\<lambda>v. if ID v = ID u then u' else v) rows"
  by (auto simp: Save_def list_ex_iff primaryKey_def)

lemma uuid_Parse_nonempty: "uuid_Parse t = None \<Longrightarrow> t \<noteq> []"
  by (cases "t = []") (simp_all add: uuid_Parse_def)

lemma exampleToken_parses: "uuid_Parse exampleToken = None"
  by (simp add: exampleToken_def uuid_Parse_def hyphenated_def isHex_def)

lemma length_exampleHash: "length exampleHash = 60"
  by (simp add: exampleHash_def)

lemma Save_new:
  assumes "ID r = Suc (maxID rows)" and "ID r' = Suc (maxID rows)"
  shows "snd (Save r' (rows @ [r])) = rows @ [r']"
proof -
  have old: "\<And>x. x \<in> set rows \<Longrightarrow> ID x \<noteq> Suc (maxID rows)"
    using maxID_ge by fastforce
  have "map (\<lambda>x. if ID x = Suc (maxID rows) then r' else x) rows = rows"
    using old by (simp add: map_idI)
  then show ?thesis
    using assms by (simp add: Save_def primaryKey_def)
qed

lemma First_new:
  "ID r = Suc (maxID rows) \<Longrightarrow> First zero (primaryKey (Suc (maxID rows))) (rows @ [r]) = r"
  by (simp add: First_def find_primaryKey_new)

section \<open>Facts about the library functions\<close>

lemma Base_nonempty: "Base path \<noteq> []"
  by (simp add: Base_def Let_def)


lemma Base_evil: "Base ''../../etc/evil.wav'' = ''evil.wav''"
  by (simp add: Base_def lastElement_def stripTrailing_def isPathSeparator_def)

lemma lower_letter:
  assumes "n < 26"
  shows "\<not> isUpper (''abcdefghijklmnopqrstuvwxyz'' ! n)"
proof -
  have "list_all (\<lambda>c. \<not> isUpper c) ''abcdefghijklmnopqrstuvwxyz''"
    by (simp add: isUpper_def)
  then show ?thesis
    using assms unfolding list_all_length by simp
qed

lemma lowerByte_not_upper: "\<not> isUpper (lowerByte c)"
proof (cases "isUpper c")
  case True
  then have "(of_char c :: nat) - 65 < 26" by (auto simp: isUpper_def)
  with True show ?thesis by (simp add: lowerByte_def lower_letter)
next
  case False
  then show ?thesis by (simp add: lowerByte_def)
qed

lemma ToLower_ASCII: "isASCII s \<Longrightarrow> list_all (\<lambda>c. \<not> isUpper c) (ToLower f s)"
  by (simp add: ToLower_def list_all_iff lowerByte_not_upper)

lemma ToLower_empty: "ToLower f [] = []"
  by (simp add: ToLower_def isASCII_def)

lemma lower_example: "ToLower f ''A@X.com'' = ''a@x.com''"
  by (simp add: ToLower_def isASCII_def lowerByte_def isUpper_def)

lemma length_fitTo: "length (fitTo n s) = n"
  by (simp add: fitTo_def)

lemma newFromHash_14:
  assumes "length salt = 22" and "length dig = 31"
  shows "newFromHash (''$2a$14$'' @ salt @ dig) = Inr (14, salt, dig)"
  using assms
  by (simp add: newFromHash_def Atoi_def digitVal_def cutoff_def MinCost_def MaxCost_def Let_def)

lemma hashPassword_shape:
  "hashPassword env password = Inr h \<Longrightarrow>
     \<exists>s d. rnd env = Inr s \<and> core env 14 (fitTo 22 s) password = Inr d \<and>
           h = ''$2a$14$'' @ fitTo 22 s @ fitTo 31 d"
  by (auto simp: hashPassword_def GenerateFromPassword_def Let_def MinCost_def MaxCost_def
        twoDigits_def split: sum.splits)

lemma hashPassword_verifies:
  "hashPassword env password = Inr h \<Longrightarrow> CompareHashAndPassword (core env) h password = None"
  by (auto dest!: hashPassword_shape simp: CompareHashAndPassword_def newFromHash_14[simplified] length_fitTo)

lemma hashPassword_cost: "hashPassword env password = Inr h \<Longrightarrow> Cost h = Inr 14"
  by (auto dest!: hashPassword_shape simp: Cost_def newFromHash_14[simplified] length_fitTo)

lemma hashPassword_text:
  "hashPassword env password = Inr h \<Longrightarrow> length h = 60 \<and> take 7 h = ''$2a$14$''"
  by (auto dest!: hashPassword_shape simp: length_fitTo)

lemma Compare_empty: "CompareHashAndPassword c [] password \<noteq> None"
  by (simp add: CompareHashAndPassword_def newFromHash_def)

lemma replicate_num: "replicate (numeral k) x = x # replicate (pred_numeral k) x"
  by (simp add: numeral_eq_Suc)

lemma fitTo_digest: "fitTo 31 ''654321wp'' = ''654321wp.......................''"
  unfolding fitTo_def by (simp add: replicate_num)

lemma fitTo_salt: "fitTo 22 ''abcdefghijklmnopqrstuv'' = ''abcdefghijklmnopqrstuv''"
  by (simp add: fitTo_def)

lemma exampleHash_verifies:
  "CompareHashAndPassword (core exampleEnv) exampleHash ''pw123456'' = None"
  by (simp add: CompareHashAndPassword_def exampleEnv_def exampleHash_def newFromHash_def Atoi_def
        digitVal_def cutoff_def MinCost_def MaxCost_def fitTo_digest)

lemma exampleHash_generated: "hashPassword exampleEnv ''pw123456'' = Inr exampleHash"
  by (simp add: hashPassword_def GenerateFromPassword_def exampleEnv_def MinCost_def MaxCost_def
        twoDigits_def fitTo_digest fitTo_salt exampleHash_def)

lemma exampleEnv_fields:
  "createErr exampleEnv = None" "saveErr exampleEnv = None" "sendErr exampleEnv = None"
  "saveFileErr exampleEnv = None" "NewRandom exampleEnv = Inr exampleToken"
  "unicodeLower exampleEnv = (\<lambda>s. s)" "URL_BASE exampleEnv = ''http://localhost:8080''"
  by (simp_all add: exampleEnv_def exampleToken_def)

lemma fitTo_secret: "fitTo 31 ''terces'' = ''terces.........................''"
  unfolding fitTo_def by (simp add: replicate_num)

lemma secretHash_generated: "hashPassword exampleEnv ''secret'' = Inr secretHash"
  by (simp add: hashPassword_def GenerateFromPassword_def exampleEnv_def MinCost_def MaxCost_def
        twoDigits_def fitTo_secret fitTo_salt secretHash_def)

lemma secretHash_verifies:
  "CompareHashAndPassword (core exampleEnv) secretHash ''secret'' = None"
  using secretHash_generated by (rule hashPassword_verifies)

lemma exampleHash_refuses_secret:
  "CompareHashAndPassword (core exampleEnv) exampleHash ''secret'' \<noteq> None"
  by (simp add: CompareHashAndPassword_def exampleEnv_def exampleHash_def newFromHash_def Atoi_def
        digitVal_def cutoff_def MinCost_def MaxCost_def fitTo_secret)

section \<open>Routes and their middleware\<close>

lemma route3:
  "runHandlers [middleware m1, middleware m2, h] (w, c) =
     (if aborted (m1 c) then (w, m1 c)
      else if aborted (m2 (m1 c)) then (w, m2 (m1 c))
      else h (w, m2 (m1 c)))"
  by (simp add: middleware_def Let_def)

section \<open>Listing the recordings of a user\<close>

text \<open>
  C2: for every user id that the store can have assigned, that is, every id other than
  0 (\<open>Create\<close> gives keys from 1, \<open>Create_key\<close>, and the only caller passes the key
  of the session's user), \<open>getAllRecordingsByUserID\<close> returns exactly the recordings
  of that owner whose status is not 0, in the order of the table: none with status 0
  and none of another owner.
\<close>

theorem listByOwner_nonzero_owner:
  "userID \<noteq> 0 \<Longrightarrow>
     getAllRecordingsByUserID w userID =
       filter (\<lambda>r. UserID r = userID \<and> Status r \<noteq> 0) (recordings w)"
  by (simp add: getAllRecordingsByUserID_def whereRecording_owner)

text \<open>The statement at owner 1 of the example store: the pending recording is left out.\<close>

theorem listByOwner_nonzero_owner_witness:
  "(1::nat) \<noteq> 0 \<and> getAllRecordingsByUserID exampleWorld 1 = [recordingA]"
  using listByOwner_nonzero_owner [of 1 exampleWorld]
  by (simp add: exampleWorld_def recordingA_def recordingB_def recordingPending_def)

section \<open>Viewing a recording\<close>

lemma getRecordingByID_stored:
  "r \<in> set (recordings w) \<Longrightarrow> distinct (map ID (recordings w)) \<Longrightarrow>
   getRecordingByID w (ID r) = (if Title r = [] then Inl (Error ''Recording not found'') else Inr r)"
  by (simp add: getRecordingByID_def First_def find_primaryKey_distinct)

lemma view_prelude:
  "cookie req = Some uid \<Longrightarrow>
   GET_recording_view env w req = getRecording env (w, (newContext req)\<lparr>is_logged_in := Some True\<rparr>)"
  unfolding GET_recording_view_def route3
  by (simp add: setUserStatus_def ensureLoggedIn_def newContext_def)

text \<open>
  C1, as the code has it: let \<open>r\<close> be a stored recording with a non-empty title (the
  keys of the table being distinct), and let a logged-in user \<open>uid\<close> request it, that is,
  the \<open>recording_id\<close> of the request parses to the key of \<open>r\<close>. A user other than the
  owner gets status 401 and no body; the owner gets status 200 and \<open>r\<close> in the
  representation that the \<open>Accept\<close> header asks for; the store is not changed. The
  comparison of the session's user with the owner is made in the handler:
  \<open>getRecordingByID\<close> has no requester to look at and returns \<open>r\<close> to every caller.
\<close>

theorem view_recording_owner_check:
  assumes "r \<in> set (recordings w)" and "distinct (map ID (recordings w))" and "Title r \<noteq> []"
    and "ParseUint32 (params req ''recording_id'') = Some (ID r)" and "cookie req = Some uid"
  shows "getRecordingByID w (ID r) = Inr r \<and>
     fst (GET_recording_view env w req) = w \<and>
     (if uid = UserID r
      then wstatus (snd (GET_recording_view env w req)) = 200 \<and>
           \<not> aborted (snd (GET_recording_view env w req)) \<and>
           wbody (snd (GET_recording_view env w req)) =
             [if acceptHeader req = ''application/json'' then JSON (Some (RecordingV r))
              else if acceptHeader req = ''application/xml'' then XML (Some (RecordingV r))
              else HTML ''recording.html''
                     [(''url_base'', String (URL_BASE env)), (''is_logged_in'', Bool True),
                      (''payload'', RecordingV r)]]
      else wstatus (snd (GET_recording_view env w req)) = 401 \<and>
           aborted (snd (GET_recording_view env w req)) \<and>
           wbody (snd (GET_recording_view env w req)) = [])"
  using assms
  by (simp add: view_prelude getRecording_def getRecordingByID_stored newContext_def render_def
        Render_def Status_code_def AbortWithStatus_def)

text \<open>The statement on the example store: user 2 and user 1 ask for recording 1 of user 1.\<close>

theorem view_recording_owner_check_witness:
  "wstatus (snd (GET_recording_view exampleEnv exampleWorld (viewRequest ''1'' 2))) = 401 \<and>
   wbody (snd (GET_recording_view exampleEnv exampleWorld (viewRequest ''1'' 2))) = [] \<and>
   wstatus (snd (GET_recording_view exampleEnv exampleWorld (viewRequest ''1'' 1))) = 200 \<and>
   wbody (snd (GET_recording_view exampleEnv exampleWorld (viewRequest ''1'' 1))) = [JSON (Some (RecordingV recordingA))]"
  using view_recording_owner_check [of recordingA exampleWorld "viewRequest ''1'' 2" 2 exampleEnv]
        view_recording_owner_check [of recordingA exampleWorld "viewRequest ''1'' 1" 1 exampleEnv]
  by (simp add: exampleWorld_def recordingA_def recordingB_def recordingPending_def viewRequest_def
        ParseUint32_def digitVal_def cutoff_def)

text \<open>
  C1 as stated, for every recording, fails on a row whose title is empty:
  \<open>getRecordingByID\<close> takes the empty title for "no such row", and both the owner
  (user 1) and another user (user 2) get 404.
\<close>

theorem view_recording_untitled_counterexample:
  "UserID recordingUntitled = 1 \<and>
   wstatus (snd (GET_recording_view exampleEnv untitledWorld (viewRequest ''4'' 1))) = 404 \<and>
   wbody (snd (GET_recording_view exampleEnv untitledWorld (viewRequest ''4'' 1))) = [] \<and>
   wstatus (snd (GET_recording_view exampleEnv untitledWorld (viewRequest ''4'' 2))) = 404"
  by (simp add: GET_recording_view_def middleware_def setUserStatus_def ensureLoggedIn_def
        newContext_def getRecording_def getRecordingByID_def First_def primaryKey_def
        untitledWorld_def recordingA_def recordingUntitled_def viewRequest_def
        ParseUint32_def digitVal_def cutoff_def AbortWithError_def AbortWithStatus_def Status_code_def)

section \<open>Confirming an account\<close>

lemma confirm_prelude:
  "cookie req = None \<Longrightarrow>
   GET_u_confirm env w req = performConfirmation env (w, (newContext req)\<lparr>is_logged_in := Some False\<rparr>)"
  unfolding GET_u_confirm_def route3
  by (simp add: setUserStatus_def ensureNotLoggedIn_def newContext_def)

lemma confirm_first:
  assumes "uuid_Parse t = None" and "u \<in> set (users w)" and "Token u = t"
    and "\<forall>v \<in> set (users w). Token v = t \<longrightarrow> v = u"
    and "ID u \<noteq> 0" and "Email u \<noteq> []" and "saveErr env = None"
    and "params req ''token'' = t" and "cookie req = None"
  shows "GET_u_confirm env w req =
     (w\<lparr>users := map (\<lambda>v. if ID v = ID u then u\<lparr>Token := [], User.Status := 1\<rparr> else v) (users w)\<rparr>,
      render env ((newContext req)\<lparr>is_logged_in := Some False\<rparr>) [] ''confirmation.html'')"
proof -
  have ne: "t \<noteq> []" using assms(1) by (rule uuid_Parse_nonempty)
  have f: "find (whereUser (zeroUser\<lparr>Token := t\<rparr>)) (users w) = Some u"
  proof (rule find_unique)
    show "u \<in> set (users w)" by (rule assms(2))
    show "whereUser (zeroUser\<lparr>Token := t\<rparr>) u" using assms(3) by (simp add: whereUser_Token)
    show "v = u" if "v \<in> set (users w)" and "whereUser (zeroUser\<lparr>Token := t\<rparr>) v" for v
      using that ne assms(4) unfolding whereUser_Token by blast
  qed
  have s: "snd (Save (u\<lparr>Token := [], User.Status := 1\<rparr>) (users w)) =
      map (\<lambda>v. if ID v = ID u then u\<lparr>Token := [], User.Status := 1\<rparr> else v) (users w)"
    using assms(2,5) by (intro Save_existing) auto
  show ?thesis
    using assms(1,6,7,8,9) f s
    by (simp add: confirm_prelude performConfirmation_def First_def newContext_def)
qed

lemma confirm_unknown:
  assumes "uuid_Parse t = None" and "\<forall>v \<in> set (users w). Token v \<noteq> t"
    and "params req ''token'' = t" and "cookie req = None"
  shows "GET_u_confirm env w req =
     (w, AbortWithError 400 (Error ''Invalid confirmation link'') ((newContext req)\<lparr>is_logged_in := Some False\<rparr>))"
proof -
  have ne: "t \<noteq> []" using assms(1) by (rule uuid_Parse_nonempty)
  have f: "find (whereUser (zeroUser\<lparr>Token := t\<rparr>)) (users w) = None"
    using assms(2) ne by (auto simp: find_None_iff whereUser_Token)
  show ?thesis
    using assms(1,3,4) f
    by (simp add: confirm_prelude performConfirmation_def First_def newContext_def zeroUser_def)
qed

text \<open>
  C3, as the code has it: let \<open>t\<close> be a token that \<open>uuid.Parse\<close> accepts and that
  exactly one user \<open>u\<close> holds, a user with a key other than 0 and a non-empty email,
  and let the write to the store succeed. The first request to confirm with \<open>t\<close>
  clears the token of \<open>u\<close>, sets the status of \<open>u\<close> to 1, changes no other user and
  answers 200. A second request with \<open>t\<close>, whatever the environment then is, finds no
  user: it is aborted with status 400 and the error "Invalid confirmation link", renders
  nothing and leaves the store as it is.
\<close>

theorem confirm_single_use:
  assumes "uuid_Parse t = None" and "u \<in> set (users w)" and "Token u = t"
    and "\<forall>v \<in> set (users w). Token v = t \<longrightarrow> v = u"
    and "ID u \<noteq> 0" and "Email u \<noteq> []" and "saveErr env = None"
    and "params req ''token'' = t" and "cookie req = None"
  shows "users (fst (GET_u_confirm env w req)) =
           map (\<lambda>v. if ID v = ID u then u\<lparr>Token := [], User.Status := 1\<rparr> else v) (users w) \<and>
         wstatus (snd (GET_u_confirm env w req)) = 200 \<and>
         \<not> aborted (snd (GET_u_confirm env w req)) \<and>
         fst (GET_u_confirm env' (fst (GET_u_confirm env w req)) req) = fst (GET_u_confirm env w req) \<and>
         wstatus (snd (GET_u_confirm env' (fst (GET_u_confirm env w req)) req)) = 400 \<and>
         aborted (snd (GET_u_confirm env' (fst (GET_u_confirm env w req)) req)) \<and>
         Errors (snd (GET_u_confirm env' (fst (GET_u_confirm env w req)) req)) = [Error ''Invalid confirmation link''] \<and>
         wbody (snd (GET_u_confirm env' (fst (GET_u_confirm env w req)) req)) = []"
proof -
  let ?w1 = "w\<lparr>users := map (\<lambda>v. if ID v = ID u then u\<lparr>Token := [], User.Status := 1\<rparr> else v) (users w)\<rparr>"
  have ne: "t \<noteq> []" using assms(1) by (rule uuid_Parse_nonempty)
  have first: "GET_u_confirm env w req =
     (?w1, render env ((newContext req)\<lparr>is_logged_in := Some False\<rparr>) [] ''confirmation.html'')"
    using assms by (rule confirm_first)
  have gone: "\<forall>v \<in> set (users ?w1). Token v \<noteq> t"
  proof
    fix v assume "v \<in> set (users ?w1)"
    then obtain v0 where v0: "v0 \<in> set (users w)"
      and v: "v = (if ID v0 = ID u then u\<lparr>Token := [], User.Status := 1\<rparr> else v0)"
      by auto
    show "Token v \<noteq> t"
    proof (cases "ID v0 = ID u")
      case True
      with v ne show ?thesis by simp
    next
      case False
      then have "v0 \<noteq> u" by auto
      with v0 assms(4) have "Token v0 \<noteq> t" by blast
      with v False show ?thesis by simp
    qed
  qed
  have second: "GET_u_confirm env' ?w1 req =
     (?w1, AbortWithError 400 (Error ''Invalid confirmation link'') ((newContext req)\<lparr>is_logged_in := Some False\<rparr>))"
    using assms(1) gone assms(8,9) by (rule confirm_unknown)
  show ?thesis
    unfolding first fst_conv snd_conv second
    by (simp add: render_def Render_def Status_code_def AbortWithError_def AbortWithStatus_def newContext_def Let_def)
qed

text \<open>The statement on a store with one unconfirmed user.\<close>

theorem confirm_single_use_witness:
  "users (fst (GET_u_confirm exampleEnv pendingWorld (confirmRequest exampleToken))) =
     [userPending\<lparr>Token := [], User.Status := 1\<rparr>] \<and>
   wstatus (snd (GET_u_confirm exampleEnv pendingWorld (confirmRequest exampleToken))) = 200 \<and>
   wstatus (snd (GET_u_confirm exampleEnv
       (fst (GET_u_confirm exampleEnv pendingWorld (confirmRequest exampleToken)))
       (confirmRequest exampleToken))) = 400"
  using confirm_single_use [of exampleToken userPending pendingWorld exampleEnv "confirmRequest exampleToken" exampleEnv]
  by (simp add: exampleToken_parses pendingWorld_def userPending_def exampleEnv_def confirmRequest_def)

text \<open>
  C3 as stated, for every token held by exactly one user, fails where that user has an
  empty email: the handler takes the empty email for "no such user", so the first
  request is refused with "Invalid confirmation link" and token and status stay.
\<close>

theorem confirm_empty_email_counterexample:
  "Token userNoEmail = exampleToken \<and>
   fst (GET_u_confirm exampleEnv noEmailWorld (confirmRequest exampleToken)) = noEmailWorld \<and>
   wstatus (snd (GET_u_confirm exampleEnv noEmailWorld (confirmRequest exampleToken))) = 400 \<and>
   Errors (snd (GET_u_confirm exampleEnv noEmailWorld (confirmRequest exampleToken))) =
     [Error ''Invalid confirmation link'']"
  by (simp add: GET_u_confirm_def middleware_def setUserStatus_def ensureNotLoggedIn_def
        newContext_def performConfirmation_def exampleToken_parses First_def whereUser_Token
        noEmailWorld_def userNoEmail_def confirmRequest_def
        AbortWithError_def AbortWithStatus_def Status_code_def)

section \<open>Uploading a recording\<close>

lemma upload_prelude:
  "cookie req = Some uid \<Longrightarrow>
   POST_recording_upload env w req = uploadRecording env (w, (newContext req)\<lparr>is_logged_in := Some True\<rparr>)"
  unfolding POST_recording_upload_def route3
  by (simp add: setUserStatus_def ensureLoggedIn_def newContext_def)

lemma createRecording_ok:
  "createErr env = None \<Longrightarrow>
   createRecording env w uid title filename language =
     (w\<lparr>recordings := recordings w @
          [\<lparr>ID = Suc (maxID (recordings w)), UserID = uid, Title = title, Filename = filename,
            Language = language, Status = 0\<rparr>]\<rparr>,
      \<lparr>ID = Suc (maxID (recordings w)), UserID = uid, Title = title, Filename = filename,
        Language = language, Status = 0\<rparr>, None)"
  by (simp add: createRecording_def Create_def Let_def)

lemma updateRecordingStatus_new:
  assumes "ID r = Suc (maxID rows)" and "recordings w = rows @ [r]"
  shows "updateRecordingStatus env w r status =
     (case saveErr env of
        Some err \<Rightarrow> (w, Some err)
      | None \<Rightarrow> (w\<lparr>recordings := rows @ [r\<lparr>Status := status\<rparr>]\<rparr>, None))"
  using assms
  by (simp add: updateRecordingStatus_def First_new Save_new split: option.splits)

lemma upload_created:
  assumes "formFile req ''content'' = Inr file" and "cookie req = Some uid" and "createErr env = None"
  shows "recordings (fst (POST_recording_upload env w req)) =
     recordings w @
       [\<lparr>ID = Suc (maxID (recordings w)), UserID = uid,
         Title = (if form req ''title'' = [] then Base (fh_Filename file) else form req ''title''),
         Filename = Base (fh_Filename file), Language = form req ''language'',
         Status = (if saveErr env = None then 1 else 0)\<rparr>]"
  using assms
  by (simp add: upload_prelude uploadRecording_def newContext_def createRecording_ok Let_def
        SaveUploadedFile_def updateRecordingStatus_new split: option.splits prod.splits)

lemma upload_result:
  assumes "formFile req ''content'' = Inr file" and "cookie req = Some uid" and "createErr env = None"
  shows "POST_recording_upload env w req =
    (let r = \<lparr>ID = Suc (maxID (recordings w)), UserID = uid,
               Title = (if form req ''title'' = [] then Base (fh_Filename file) else form req ''title''),
               Filename = Base (fh_Filename file), Language = form req ''language'', Status = 0\<rparr>;
         c = (newContext req)\<lparr>is_logged_in := Some True\<rparr>;
         c2 = (case saveFileErr env of Some e \<Rightarrow> AbortWithError 400 e c | None \<Rightarrow> c);
         fs = (case saveFileErr env of Some e \<Rightarrow> files w
               | None \<Rightarrow> (RecordingFilename env (Suc (maxID (recordings w))), fh_Content file) # files w)
     in case saveErr env of
          None \<Rightarrow> (w\<lparr>recordings := recordings w @ [r\<lparr>Status := 1\<rparr>], files := fs\<rparr>,
                     render env c2 [(''payload'', RecordingV r)] ''submission-successful.html'')
        | Some e \<Rightarrow> (w\<lparr>recordings := recordings w @ [r], files := fs\<rparr>, AbortWithError 400 e c2))"
  using assms
  by (simp add: upload_prelude uploadRecording_def newContext_def createRecording_ok Let_def
        SaveUploadedFile_def updateRecordingStatus_new split: option.splits prod.splits)



text \<open>
  \<open>filepath.Base\<close> never returns the empty string, so the title that
  \<open>uploadRecording\<close> hands to \<open>createRecording\<close> is never empty; and when
  \<open>createRecording\<close> succeeds, \<open>getRecordingByID\<close> on the new key returns the new
  row, not "Recording not found".
\<close>

lemma created_recording_is_found:
  assumes "formFile req ''content'' = Inr file" and "cookie req = Some uid" and "createErr env = None"
  shows "Base (fh_Filename file) \<noteq> [] \<and>
     (if form req ''title'' = [] then Base (fh_Filename file) else form req ''title'') \<noteq> [] \<and>
     getRecordingByID (fst (POST_recording_upload env w req)) (Suc (maxID (recordings w))) =
       Inr \<lparr>ID = Suc (maxID (recordings w)), UserID = uid,
            Title = (if form req ''title'' = [] then Base (fh_Filename file) else form req ''title''),
            Filename = Base (fh_Filename file), Language = form req ''language'',
            Status = (if saveErr env = None then 1 else 0)\<rparr>"
  using assms
  by (simp add: Base_nonempty getRecordingByID_def upload_created First_new)

text \<open>
  C4 fails in \<open>uploadRecording\<close>: let the upload carry a file, the user be logged in
  and \<open>createRecording\<close> succeed, and let \<open>SaveUploadedFile\<close> fail with \<open>e\<close>. The
  handler aborts with status 400 and \<open>e\<close>, writes no file, and then, for want of a
  \<open>return\<close>, goes on: \<open>updateRecordingStatus\<close> sets the status of the new row
  to 1 and the page of a successful submission is rendered into the response.
\<close>

theorem upload_goes_on_after_failed_save:
  assumes "formFile req ''content'' = Inr file" and "cookie req = Some uid"
    and "createErr env = None" and "saveFileErr env = Some e" and "saveErr env = None"
  shows "Errors (snd (POST_recording_upload env w req)) = [e] \<and>
     wstatus (snd (POST_recording_upload env w req)) = 400 \<and>
     aborted (snd (POST_recording_upload env w req)) \<and>
     files (fst (POST_recording_upload env w req)) = files w \<and>
     recordings (fst (POST_recording_upload env w req)) =
       recordings w @
         [\<lparr>ID = Suc (maxID (recordings w)), UserID = uid,
           Title = (if form req ''title'' = [] then Base (fh_Filename file) else form req ''title''),
           Filename = Base (fh_Filename file), Language = form req ''language'', Status = 1\<rparr>] \<and>
     wbody (snd (POST_recording_upload env w req)) =
       [if acceptHeader req = ''application/json''
        then JSON (Some (RecordingV
               \<lparr>ID = Suc (maxID (recordings w)), UserID = uid,
                 Title = (if form req ''title'' = [] then Base (fh_Filename file) else form req ''title''),
                 Filename = Base (fh_Filename file), Language = form req ''language'', Status = 0\<rparr>))
        else if acceptHeader req = ''application/xml''
        then XML (Some (RecordingV
               \<lparr>ID = Suc (maxID (recordings w)), UserID = uid,
                 Title = (if form req ''title'' = [] then Base (fh_Filename file) else form req ''title''),
                 Filename = Base (fh_Filename file), Language = form req ''language'', Status = 0\<rparr>))
        else HTML ''submission-successful.html''
               [(''url_base'', String (URL_BASE env)), (''is_logged_in'', Bool True),
                (''payload'', RecordingV
                   \<lparr>ID = Suc (maxID (recordings w)), UserID = uid,
                     Title = (if form req ''title'' = [] then Base (fh_Filename file) else form req ''title''),
                     Filename = Base (fh_Filename file), Language = form req ''language'', Status = 0\<rparr>)]]"
  using assms
  by (simp add: upload_result Let_def render_def Render_def AbortWithError_def AbortWithStatus_def
        Status_code_def newContext_def)

text \<open>The statement on the example store, with a disk that is full.\<close>

theorem upload_goes_on_after_failed_save_witness:
  "Errors (snd (POST_recording_upload diskFullEnv exampleWorld (uploadRequest [] ''../../etc/evil.wav'' 1)))
     = [Error ''no space left on device''] \<and>
   wstatus (snd (POST_recording_upload diskFullEnv exampleWorld (uploadRequest [] ''../../etc/evil.wav'' 1))) = 400 \<and>
   files (fst (POST_recording_upload diskFullEnv exampleWorld (uploadRequest [] ''../../etc/evil.wav'' 1))) = [] \<and>
   recordings (fst (POST_recording_upload diskFullEnv exampleWorld (uploadRequest [] ''../../etc/evil.wav'' 1)))
     = [recordingA, recordingB, recordingPending, recordingEvil\<lparr>Status := 1\<rparr>] \<and>
   wbody (snd (POST_recording_upload diskFullEnv exampleWorld (uploadRequest [] ''../../etc/evil.wav'' 1)))
     = [JSON (Some (RecordingV recordingEvil))]"
  using upload_goes_on_after_failed_save [of "uploadRequest [] ''../../etc/evil.wav'' 1" "FileHeader ''../../etc/evil.wav'' ''RIFF''" 1
      diskFullEnv "Error ''no space left on device''" exampleWorld]
  by (simp add: uploadRequest_def diskFullEnv_def exampleEnv_def exampleWorld_def recordingA_def
        recordingB_def recordingPending_def recordingEvil_def Base_evil)

text \<open>
  C10 fails after a failed \<open>createRecording\<close>, for want of the same \<open>return\<close>: let
  the upload carry a file, the user be logged in, \<open>createRecording\<close> fail with \<open>e\<close>
  and the later calls succeed, on a table without a row of key 0. The struct keeps the
  key 0, the upload is saved under the name for key 0, and \<open>updateRecordingStatus\<close>,
  which finds no row 0, saves a zero-valued recording with status 1: the upload has
  created a row without owner and with the empty title, and \<open>getRecordingByID\<close>
  on its key answers "Recording not found".
\<close>

theorem upload_inserts_untitled_row_after_failed_create:
  assumes "formFile req ''content'' = Inr file" and "cookie req = Some uid"
    and "createErr env = Some e" and "saveFileErr env = None" and "saveErr env = None"
    and "\<not> list_ex (primaryKey 0) (recordings w)"
  shows "Errors (snd (POST_recording_upload env w req)) = [e] \<and>
     wstatus (snd (POST_recording_upload env w req)) = 400 \<and>
     files (fst (POST_recording_upload env w req)) =
       (RecordingFilename env 0, fh_Content file) # files w \<and>
     recordings (fst (POST_recording_upload env w req)) =
       recordings w @
         [\<lparr>ID = Suc (maxID (recordings w)), UserID = 0, Title = [], Filename = [],
           Language = [], Status = 1\<rparr>] \<and>
     getRecordingByID (fst (POST_recording_upload env w req)) (Suc (maxID (recordings w))) =
       Inl (Error ''Recording not found'')"
proof -
  have nf: "find (primaryKey 0) (recordings w) = None"
    using assms(6) by (simp add: find_None_iff list_ex_iff)
  have rows: "recordings (fst (POST_recording_upload env w req)) =
       recordings w @
         [\<lparr>ID = Suc (maxID (recordings w)), UserID = 0, Title = [], Filename = [],
           Language = [], Status = 1\<rparr>]"
    using assms(1-5) nf
    by (simp add: upload_prelude uploadRecording_def newContext_def createRecording_def Let_def
        SaveUploadedFile_def updateRecordingStatus_def First_def Save_def Create_def zeroRecording_def)
  have rest: "Errors (snd (POST_recording_upload env w req)) = [e] \<and>
     wstatus (snd (POST_recording_upload env w req)) = 400 \<and>
     files (fst (POST_recording_upload env w req)) =
       (RecordingFilename env 0, fh_Content file) # files w"
    using assms(1-5) nf
    by (simp add: upload_prelude uploadRecording_def newContext_def createRecording_def Let_def
        SaveUploadedFile_def updateRecordingStatus_def First_def Save_def Create_def zeroRecording_def
        render_def Render_def AbortWithError_def AbortWithStatus_def Status_code_def)
  show ?thesis
    using rest by (simp add: rows getRecordingByID_def First_new)
qed

text \<open>The statement on the example store, with a database that is locked at the first write.\<close>

theorem upload_inserts_untitled_row_after_failed_create_witness:
  "recordings (fst (POST_recording_upload lockedEnv exampleWorld (uploadRequest [] ''../../etc/evil.wav'' 1)))
     = [recordingA, recordingB, recordingPending, recordingBlank] \<and>
   Title recordingBlank = [] \<and>
   getRecordingByID
     (fst (POST_recording_upload lockedEnv exampleWorld (uploadRequest [] ''../../etc/evil.wav'' 1))) 4
     = Inl (Error ''Recording not found'') \<and>
   files (fst (POST_recording_upload lockedEnv exampleWorld (uploadRequest [] ''../../etc/evil.wav'' 1)))
     = [(''recordings/'', ''RIFF'')]"
  using upload_inserts_untitled_row_after_failed_create
      [of "uploadRequest [] ''../../etc/evil.wav'' 1" "FileHeader ''../../etc/evil.wav'' ''RIFF''" 1
        lockedEnv "Error ''database is locked''" exampleWorld]
  by (simp add: uploadRequest_def lockedEnv_def exampleEnv_def exampleWorld_def recordingA_def
        recordingB_def recordingPending_def recordingBlank_def primaryKey_def)

section \<open>Logging in\<close>

lemma login_prelude:
  "cookie req = None \<Longrightarrow>
   POST_u_login env w req = performLogin env (w, (newContext req)\<lparr>is_logged_in := Some False\<rparr>)"
  unfolding POST_u_login_def route3
  by (simp add: setUserStatus_def ensureNotLoggedIn_def newContext_def)

lemma lookup_by_email:
  assumes "u \<in> set (users w)" and "distinct (map Email (users w))" and "Email u \<noteq> []"
  shows "First zeroUser (whereUser (zeroUser\<lparr>Email := Email u\<rparr>)) (users w) = u"
proof -
  have "find (whereUser (zeroUser\<lparr>Email := Email u\<rparr>)) (users w) = Some u"
  proof (rule find_unique)
    show "u \<in> set (users w)" by (rule assms(1))
    show "whereUser (zeroUser\<lparr>Email := Email u\<rparr>) u" by (simp add: whereUser_Email)
    show "v = u" if "v \<in> set (users w)" and "whereUser (zeroUser\<lparr>Email := Email u\<rparr>) v" for v
    proof -
      from that(2) assms(3) have "Email v = Email u" by (simp add: whereUser_Email)
      with that(1) assms(1,2) show "v = u" by (meson distinct_map inj_onD)
    qed
  qed
  then show ?thesis by (simp add: First_def)
qed

lemma findUser_stored:
  assumes "findUser env w email password = Some u"
  shows "u \<in> set (users w)"
proof -
  let ?c = "whereUser (zeroUser\<lparr>Email := email\<rparr>)"
  show ?thesis
  proof (cases "find ?c (users w)")
    case None
    with assms show ?thesis
      using Compare_empty [of "core env" password]
      by (simp add: findUser_def First_def zeroUser_def split: option.splits)
  next
    case (Some v)
    then have "v \<in> set (users w)" by (auto simp: find_Some_iff)
    with Some assms show ?thesis
      by (auto simp: findUser_def First_def split: option.splits)
  qed
qed

lemma login_needs_confirmed_user:
  assumes "cookie req = None" and "session (snd (POST_u_login env w req)) = Some i"
  shows "\<exists>u \<in> set (users w). ID u = i \<and> User.Status u > 0"
  using assms findUser_stored
  by (fastforce simp: login_prelude performLogin_def newContext_def Let_def render_def Render_def
        Status_code_def split: option.splits if_splits)

lemma login_rejected:
  assumes "cookie req = None"
    and "findUser env w (ToLower (unicodeLower env) (form req ''email'')) (form req ''password'') = None"
  shows "POST_u_login env w req =
     (w, Render 400 invalidCredentials ((newContext req)\<lparr>is_logged_in := Some False\<rparr>))"
  using assms
  by (simp add: login_prelude performLogin_def newContext_def Let_def invalidCredentials_def)

lemma findUser_unknown_email:
  assumes "email \<noteq> []" and "\<not> list_ex (\<lambda>u. Email u = email) (users w)"
  shows "findUser env w email password = None"
proof -
  have "find (whereUser (zeroUser\<lparr>Email := email\<rparr>)) (users w) = None"
    using assms by (auto simp: find_None_iff whereUser_Email list_ex_iff)
  then show ?thesis
    using Compare_empty [of "core env" password]
    by (simp add: findUser_def First_def zeroUser_def split: option.splits)
qed

text \<open>
  Let \<open>u\<close> be a stored user with status 0, let the lookup by the lowered email of the
  form yield \<open>u\<close> (as it does for every user with a non-empty email while emails are
  unique, \<open>lookup_by_email\<close>), and let the password of the form verify against the
  hash of \<open>u\<close>. Then the login sets no session and no login flag, leaves the store as
  it is, and answers 400 with the page that asks to check the mailbox, which is not the
  page for invalid credentials. (No login of any user with status 0 sets a session:
  \<open>login_needs_confirmed_user\<close>.)
\<close>

lemma login_unconfirmed_found:
  assumes "cookie req = None"
    and "u \<in> set (users w)"
    and "First zeroUser (whereUser (zeroUser\<lparr>Email := ToLower (unicodeLower env) (form req ''email'')\<rparr>))
           (users w) = u"
    and "CompareHashAndPassword (core env) (Password u) (form req ''password'') = None"
    and "User.Status u = 0"
  shows "fst (POST_u_login env w req) = w \<and>
     session (snd (POST_u_login env w req)) = None \<and>
     is_logged_in (snd (POST_u_login env w req)) = Some False \<and>
     wstatus (snd (POST_u_login env w req)) = 400 \<and>
     wbody (snd (POST_u_login env w req)) = [needsConfirmation] \<and>
     needsConfirmation \<noteq> invalidCredentials"
  using assms
  by (simp add: login_prelude performLogin_def findUser_def newContext_def Let_def
        needsConfirmation_def invalidCredentials_def Render_def Status_code_def)

text \<open>The statement for the unconfirmed user of the example store, with the email in capitals.\<close>

lemma login_unconfirmed_found_example:
  "wbody (snd (POST_u_login exampleEnv pendingWorld (loginRequest ''A@X.com'' ''pw123456''))) = [needsConfirmation] \<and>
   session (snd (POST_u_login exampleEnv pendingWorld (loginRequest ''A@X.com'' ''pw123456''))) = None \<and>
   wstatus (snd (POST_u_login exampleEnv pendingWorld (loginRequest ''A@X.com'' ''pw123456''))) = 400"
  using login_unconfirmed_found [of "loginRequest ''A@X.com'' ''pw123456''" userPending pendingWorld exampleEnv]
    exampleHash_verifies
  by (simp add: loginRequest_def pendingWorld_def userPending_def lower_example First_def
        whereUser_Email)

text \<open>
  C9 fails for the empty email: let no stored user have an empty email, let the form
  carry the empty email and the password of the first user of the table, a confirmed
  one. The \<open>Where\<close> of \<open>findUser\<close> is built from a struct that is all zero, so
  \<open>First\<close> yields the first user, the password verifies, and the request is logged
  in as that user instead of being refused as invalid credentials. (For a non-empty email
  that no user has, the refusal is the one for a wrong password:
  \<open>findUser_unknown_email\<close>, \<open>login_rejected\<close>.)
\<close>

theorem login_empty_email_finds_first_user:
  assumes "cookie req = None" and "form req ''email'' = []"
    and "users w = u # rest" and "\<not> list_ex (\<lambda>v. Email v = []) (users w)"
    and "CompareHashAndPassword (core env) (Password u) (form req ''password'') = None"
    and "User.Status u > 0"
  shows "session (snd (POST_u_login env w req)) = Some (ID u) \<and>
     is_logged_in (snd (POST_u_login env w req)) = Some True \<and>
     wstatus (snd (POST_u_login env w req)) = 200 \<and>
     wbody (snd (POST_u_login env w req)) \<noteq> [invalidCredentials]"
  using assms
  by (simp add: login_prelude performLogin_def findUser_def newContext_def Let_def ToLower_empty
        First_def whereUser_Email render_def Render_def Status_code_def invalidCredentials_def)

text \<open>The statement on a store whose only user is confirmed.\<close>

theorem login_empty_email_finds_first_user_witness:
  "Email userConfirmed = ''a@x.com'' \<and>
   session (snd (POST_u_login exampleEnv confirmedWorld (loginRequest [] ''pw123456''))) = Some 1 \<and>
   wstatus (snd (POST_u_login exampleEnv confirmedWorld (loginRequest [] ''pw123456''))) = 200"
  using login_empty_email_finds_first_user [of "loginRequest [] ''pw123456''" confirmedWorld userConfirmed "[]" exampleEnv]
    exampleHash_verifies
  by (simp add: loginRequest_def confirmedWorld_def userConfirmed_def)

section \<open>Registering\<close>

lemma createUser_ok:
  "\<not> list_ex (\<lambda>u. Email u = Email user) (users w) \<Longrightarrow> createErr env = None \<Longrightarrow>
   createUser env w user =
     (w\<lparr>users := users w @ [user\<lparr>ID := Suc (maxID (users w))\<rparr>]\<rparr>,
      user\<lparr>ID := Suc (maxID (users w))\<rparr>, None)"
  by (simp add: createUser_def Create_def Let_def)

lemma createUser_failed:
  "list_ex (\<lambda>u. Email u = Email user) (users w) \<or> createErr env \<noteq> None \<Longrightarrow>
   fst (createUser env w user) = w \<and> snd (snd (createUser env w user)) \<noteq> None"
  by (auto simp: createUser_def)

lemma sendConfirmation_new:
  assumes "ID u = Suc (maxID rows)"
  shows "sendConfirmation env (w\<lparr>users := rows @ [u]\<rparr>) (Suc (maxID rows)) =
     (case NewRandom env of
        Inl err \<Rightarrow> (w\<lparr>users := rows @ [u]\<rparr>, Some err)
      | Inr token \<Rightarrow>
          (case saveErr env of
             Some err \<Rightarrow> (w\<lparr>users := rows @ [u]\<rparr>, Some err)
           | None \<Rightarrow>
               (case sendErr env of
                  Some err \<Rightarrow> (w\<lparr>users := rows @ [u\<lparr>Token := token\<rparr>]\<rparr>, Some err)
                | None \<Rightarrow>
                    (w\<lparr>users := rows @ [u\<lparr>Token := token\<rparr>],
                       outbox := outbox w @
                         [(Email u, ''Email Confirmation'',
                           ''To confirm this email address, go to:<br/>'' @ [CHR 0x0A]
                           @ ''<a href='' @ [CHR 0x22] @ (URL_BASE env @ ''/u/confirm/'' @ token)
                           @ [CHR 0x22] @ ''>'' @ (URL_BASE env @ ''/u/confirm/'' @ token) @ ''</a>'')]\<rparr>,
                     None))))"
  using assms
  by (simp add: sendConfirmation_def First_new Save_new Let_def split: sum.splits option.splits)

lemma registerNewUser_stored:
  assumes "hashPassword env password = Inr h"
    and "\<not> list_ex (\<lambda>u. Email u = email) (users w)" and "createErr env = None"
    and "NewRandom env = Inr token" and "saveErr env = None"
  shows "users (fst (registerNewUser env w email password)) =
           users w @ [\<lparr>ID = Suc (maxID (users w)), Email = email, Password = h, Token = token,
                       User.Status = 0\<rparr>]"
  using assms
  by (simp add: registerNewUser_def createUser_ok sendConfirmation_new split: option.splits)

lemma users_after_registerNewUser:
  assumes "u \<in> set (users (fst (registerNewUser env w email password)))"
  shows "u \<in> set (users w) \<or>
     (\<exists>h. hashPassword env password = Inr h \<and> ID u = Suc (maxID (users w)) \<and>
          Email u = email \<and> Password u = h \<and> User.Status u = 0)"
proof (cases "hashPassword env password")
  case (Inl err)
  with assms show ?thesis by (simp add: registerNewUser_def)
next
  case (Inr h)
  show ?thesis
  proof (cases "list_ex (\<lambda>u. Email u = email) (users w) \<or> createErr env \<noteq> None")
    case True
    then have "fst (registerNewUser env w email password) = w"
      using Inr by (auto simp: registerNewUser_def createUser_def split: option.splits)
    with assms show ?thesis by simp
  next
    case False
    then show ?thesis
      using assms Inr
      by (auto simp: registerNewUser_def createUser_ok sendConfirmation_new
            split: sum.splits option.splits)
  qed
qed

lemma register_prelude:
  "POST_u_register env w req =
     (case cookie req of
        Some uid \<Rightarrow> (w, AbortWithStatus 401 ((newContext req)\<lparr>is_logged_in := Some True\<rparr>))
      | None \<Rightarrow> register env (w, (newContext req)\<lparr>is_logged_in := Some False\<rparr>))"
  unfolding POST_u_register_def route3
  by (simp add: setUserStatus_def ensureNotLoggedIn_def newContext_def AbortWithStatus_def
        Status_code_def split: option.splits)

lemma users_after_register:
  "users (fst (POST_u_register env w req)) =
     (case cookie req of
        Some uid \<Rightarrow> users w
      | None \<Rightarrow> users (fst (registerNewUser env w (ToLower (unicodeLower env) (form req ''email''))
                                (form req ''password''))))"
  by (simp add: register_prelude register_def newContext_def Let_def split: option.splits prod.splits sum.splits)

text \<open>
  C7: let the password hash, the email be new, the row be created, the token be drawn
  and saved, and let \<open>helper.SendEmail\<close> fail with \<open>e\<close>. Then \<open>registerNewUser\<close>
  returns the error "Could not send confirmation link: e", no mail is in the outbox, and
  the new user, with its hash, its token and status 0, is in the table: nothing is
  rolled back.
\<close>

theorem register_keeps_user_when_mail_fails:
  assumes "hashPassword env password = Inr h"
    and "\<not> list_ex (\<lambda>u. Email u = email) (users w)" and "createErr env = None"
    and "NewRandom env = Inr token" and "saveErr env = None"
    and "sendErr env = Some e"
  shows "snd (registerNewUser env w email password) =
           Inl (Error (''Could not send confirmation link: '' @ msg e)) \<and>
         users (fst (registerNewUser env w email password)) =
           users w @ [\<lparr>ID = Suc (maxID (users w)), Email = email, Password = h, Token = token,
                       User.Status = 0\<rparr>] \<and>
         outbox (fst (registerNewUser env w email password)) = outbox w"
  using assms
  by (simp add: registerNewUser_def createUser_ok sendConfirmation_new wrapError_def)

text \<open>The statement on the empty store, with a mail server that is down.\<close>

theorem register_keeps_user_when_mail_fails_witness:
  "snd (registerNewUser mailDownEnv emptyWorld ''a@x.com'' ''pw123456'') =
     Inl (Error ''Could not send confirmation link: dial tcp: connection refused'') \<and>
   users (fst (registerNewUser mailDownEnv emptyWorld ''a@x.com'' ''pw123456'')) = [userPending] \<and>
   outbox (fst (registerNewUser mailDownEnv emptyWorld ''a@x.com'' ''pw123456'')) = []"
proof -
  have h: "hashPassword mailDownEnv ''pw123456'' = Inr exampleHash"
    using exampleHash_generated by (simp add: hashPassword_def mailDownEnv_def)
  show ?thesis
    using register_keeps_user_when_mail_fails [of mailDownEnv "''pw123456''" exampleHash "''a@x.com''" emptyWorld exampleToken
        "Error ''dial tcp: connection refused''"] h
    by (simp add: mailDownEnv_def exampleEnv_def emptyWorld_def userPending_def exampleToken_def)
qed

text \<open>
  C8: every user that is in the table after a request to register and was not there
  before has the lowered email of the form (with no capital letter left in it when the
  email is ASCII), status 0, and as password a bcrypt hash of cost 14: a text of 60
  bytes that starts with \<open>$2a$14$\<close> and that the password of the form verifies
  against. The stored text is what \<open>hashPassword\<close> returned, never its argument.
\<close>

theorem register_stores_lowercase_hash_status0:
  "\<forall>u \<in> set (users (fst (POST_u_register env w req))).
      u \<in> set (users w) \<or>
      (Email u = ToLower (unicodeLower env) (form req ''email'') \<and>
       (isASCII (form req ''email'') \<longrightarrow> list_all (\<lambda>c. \<not> isUpper c) (Email u)) \<and>
       Cost (Password u) = Inr 14 \<and>
       length (Password u) = 60 \<and> take 7 (Password u) = ''$2a$14$'' \<and>
       CompareHashAndPassword (core env) (Password u) (form req ''password'') = None \<and>
       User.Status u = 0)"
proof
  fix u assume u: "u \<in> set (users (fst (POST_u_register env w req)))"
  show "u \<in> set (users w) \<or>
      (Email u = ToLower (unicodeLower env) (form req ''email'') \<and>
       (isASCII (form req ''email'') \<longrightarrow> list_all (\<lambda>c. \<not> isUpper c) (Email u)) \<and>
       Cost (Password u) = Inr 14 \<and>
       length (Password u) = 60 \<and> take 7 (Password u) = ''$2a$14$'' \<and>
       CompareHashAndPassword (core env) (Password u) (form req ''password'') = None \<and>
       User.Status u = 0)"
  proof (cases "cookie req")
    case (Some uid)
    with u show ?thesis by (simp add: users_after_register)
  next
    case None
    with u have "u \<in> set (users (fst (registerNewUser env w
        (ToLower (unicodeLower env) (form req ''email'')) (form req ''password''))))"
      by (simp add: users_after_register)
    from users_after_registerNewUser [OF this] show ?thesis
    proof
      assume "u \<in> set (users w)"
      then show ?thesis by simp
    next
      assume "\<exists>h. hashPassword env (form req ''password'') = Inr h \<and>
          ID u = Suc (maxID (users w)) \<and>
          Email u = ToLower (unicodeLower env) (form req ''email'') \<and>
          Password u = h \<and> User.Status u = 0"
      then obtain h where h: "hashPassword env (form req ''password'') = Inr h"
        and e: "Email u = ToLower (unicodeLower env) (form req ''email'')"
        and p: "Password u = h" and st: "User.Status u = 0"
        by blast
      show ?thesis
        using hashPassword_cost [OF h] hashPassword_text [OF h] hashPassword_verifies [OF h]
          e p st ToLower_ASCII [of "form req ''email''" "unicodeLower env"]
        by simp
    qed
  qed
qed

text \<open>The statement for a registration on the empty store, email in capitals.\<close>

theorem register_stores_lowercase_hash_status0_witness:
  "users (fst (POST_u_register exampleEnv emptyWorld (registerRequest ''A@X.com'' ''pw123456''))) = [userPending] \<and>
   Email userPending = ''a@x.com'' \<and> Cost (Password userPending) = Inr 14 \<and>
   User.Status userPending = 0"
proof -
  let ?w = "fst (POST_u_register exampleEnv emptyWorld (registerRequest ''A@X.com'' ''pw123456''))"
  have run: "users ?w = [userPending]"
    using registerNewUser_stored [of exampleEnv "''pw123456''" exampleHash "''a@x.com''" emptyWorld
        exampleToken] exampleHash_generated
    by (simp add: users_after_register registerRequest_def loginRequest_def lower_example
          exampleEnv_fields emptyWorld_def userPending_def)
  have "userPending \<in> set (users ?w)" by (simp add: run)
  with register_stores_lowercase_hash_status0 [of exampleEnv emptyWorld "registerRequest ''A@X.com'' ''pw123456''"]
  have "Email userPending = ToLower (unicodeLower exampleEnv) ''A@X.com'' \<and>
        Cost (Password userPending) = Inr 14 \<and> User.Status userPending = 0"
    by (auto simp: emptyWorld_def registerRequest_def loginRequest_def)
  with run show ?thesis by (simp add: lower_example)
qed

section \<open>An unconfirmed user with an empty email\<close>

text \<open>
  \<open>register\<close> takes the empty email as any other: two registrations on the empty
  store, the second with the empty email, leave the two users of \<open>twoUsersWorld\<close>.
\<close>

lemma two_registrations:
  "users (fst (POST_u_register exampleEnv
      (fst (POST_u_register exampleEnv emptyWorld (registerRequest ''a@x.com'' ''pw123456'')))
      (registerRequest [] ''secret''))) = users twoUsersWorld"
proof -
  define w1 where
    "w1 = fst (POST_u_register exampleEnv emptyWorld (registerRequest ''a@x.com'' ''pw123456''))"
  have lower: "ToLower f ''a@x.com'' = ''a@x.com''" for f
    by (simp add: ToLower_def isASCII_def lowerByte_def isUpper_def)
  have one: "users w1 = [userPending]"
    unfolding w1_def
    using registerNewUser_stored [of exampleEnv "''pw123456''" exampleHash "''a@x.com''" emptyWorld
        exampleToken] exampleHash_generated
    by (simp add: users_after_register registerRequest_def lower
          exampleEnv_fields emptyWorld_def userPending_def)
  have new: "\<not> list_ex (\<lambda>u. Email u = []) (users w1)"
    by (simp add: one userPending_def)
  have "users (fst (registerNewUser exampleEnv w1 [] ''secret'')) =
      users w1 @ [\<lparr>ID = Suc (maxID (users w1)), Email = [], Password = secretHash,
                    Token = exampleToken, User.Status = 0\<rparr>]"
    using secretHash_generated new
    by (intro registerNewUser_stored) (simp_all add: exampleEnv_fields)
  then have "users (fst (POST_u_register exampleEnv w1 (registerRequest [] ''secret''))) =
      [userPending, userBlankEmail]"
    by (simp add: users_after_register registerRequest_def ToLower_empty one userPending_def
          userBlankEmail_def)
  then show ?thesis
    by (simp add: w1_def twoUsersWorld_def)
qed

text \<open>
  C5 fails for a registered user with the empty email who is not the first of the
  table: let \<open>u\<close> be such a user, with status 0, and let the form carry the email of
  \<open>u\<close> (the empty one) and a password that verifies against the hash of \<open>u\<close> and
  not against that of the first user \<open>u1\<close>. The \<open>Where\<close> of \<open>findUser\<close> is built
  from a struct that is all zero, so \<open>First\<close> yields \<open>u1\<close>, the password is
  compared with the hash of \<open>u1\<close>, and the login is refused with the page for invalid
  credentials, not with the page that asks to check the mailbox. No session is set.
\<close>

theorem login_unconfirmed_empty_email_refused:
  assumes "cookie req = None" and "form req ''email'' = []"
    and "users w = u1 # rest" and "u \<in> set rest"
    and "Email u = []" and "User.Status u = 0"
    and "CompareHashAndPassword (core env) (Password u) (form req ''password'') = None"
    and "CompareHashAndPassword (core env) (Password u1) (form req ''password'') \<noteq> None"
  shows "ToLower (unicodeLower env) (form req ''email'') = Email u \<and>
     u \<in> set (users w) \<and>
     fst (POST_u_login env w req) = w \<and>
     session (snd (POST_u_login env w req)) = None \<and>
     wstatus (snd (POST_u_login env w req)) = 400 \<and>
     wbody (snd (POST_u_login env w req)) = [invalidCredentials] \<and>
     invalidCredentials \<noteq> needsConfirmation"
proof -
  have "findUser env w (ToLower (unicodeLower env) (form req ''email'')) (form req ''password'') = None"
    using assms(2,3,8)
    by (cases "CompareHashAndPassword (core env) (Password u1) (form req ''password'')")
       (simp_all add: findUser_def First_def whereUser_Email ToLower_empty)
  with assms(1) have run: "POST_u_login env w req =
     (w, Render 400 invalidCredentials ((newContext req)\<lparr>is_logged_in := Some False\<rparr>))"
    by (rule login_rejected)
  show ?thesis
    using assms(1-5)
    by (simp add: run ToLower_empty Render_def Status_code_def newContext_def
          invalidCredentials_def needsConfirmation_def)
qed

text \<open>The statement on the store that the two registrations leave.\<close>

theorem login_unconfirmed_empty_email_refused_witness:
  "users (fst (POST_u_register exampleEnv
      (fst (POST_u_register exampleEnv emptyWorld (registerRequest ''a@x.com'' ''pw123456'')))
      (registerRequest [] ''secret''))) = users twoUsersWorld \<and>
   Email userBlankEmail = [] \<and> User.Status userBlankEmail = 0 \<and>
   CompareHashAndPassword (core exampleEnv) (Password userBlankEmail) ''secret'' = None \<and>
   wbody (snd (POST_u_login exampleEnv twoUsersWorld (loginRequest [] ''secret''))) = [invalidCredentials] \<and>
   wstatus (snd (POST_u_login exampleEnv twoUsersWorld (loginRequest [] ''secret''))) = 400 \<and>
   session (snd (POST_u_login exampleEnv twoUsersWorld (loginRequest [] ''secret''))) = None"
  using login_unconfirmed_empty_email_refused [of "loginRequest [] ''secret''" twoUsersWorld userPending "[userBlankEmail]"
      userBlankEmail exampleEnv]
    secretHash_verifies exampleHash_refuses_secret two_registrations
  by (simp add: loginRequest_def twoUsersWorld_def userPending_def userBlankEmail_def)

end
